theory Spec2Isabelle
  imports Main "HOL-Library.Word"
begin

section \<open>Data model (core types)\<close>

text \<open>
  The records follow the interfaces of the core type declarations. Strings are
  \<^typ>\<open>string\<close>; a character stands for one code unit below 256. Sizes and
  counters are natural numbers, offsets into a buffer are integers (the chunk
  arithmetic subtracts). Timestamps are the ISO strings the code stores.
\<close>

datatype SyncStatus = Pending | Syncing | Synced | Failed | Deleted

datatype JobStatus = JobPending | JobRunning | JobCompleted | JobFailed | JobCancelled

text \<open>A row of table \<open>synced_files\<close> (the autoincrement row id is left out).\<close>

record SyncedFile =
  tenantId :: string
  mappingId :: string
  localPath :: string
  remotePath :: string
  driveItemId :: string
  fileHash :: string
  fileSize :: nat
  localModifiedAt :: string
  remoteModifiedAt :: string
  syncedAt :: string
  status :: SyncStatus
  errorMessage :: "string option"

record SyncError =
  filePath :: string
  error :: string
  timestamp :: string
  retryCount :: nat

text \<open>A row of table \<open>sync_jobs\<close>, with the error list already parsed.\<close>

record SyncJob =
  job_id :: string
  job_tenantId :: string
  job_mappingId :: "string option"
  job_status :: JobStatus
  startedAt :: string
  completedAt :: "string option"
  filesTotal :: nat
  filesProcessed :: nat
  filesFailed :: nat
  bytesTotal :: nat
  bytesTransferred :: nat
  errors :: "SyncError list"

record ScannedFile =
  path :: string
  relativePath :: string
  name :: string
  size_bytes :: nat
  hash :: string
  createdAt :: string
  modifiedAt :: string
  isDirectory :: bool

text \<open>The fields of a remote item that the program reads.\<close>

record SharePointItem =
  item_id :: string
  item_name :: string
  lastModifiedDateTime :: string

record UploadSession =
  uploadUrl :: string
  expirationDateTime :: string

record TenantConfig =
  tenant_id :: string
  preserveFolderStructure :: bool

record SyncMapping =
  mapping_id :: string
  source :: string
  destination_folder :: "string option"

type_synonym Buffer = "8 word list"

section \<open>Sync tracker (tracker.ts)\<close>

text \<open>
  What a remote operation of the engine is, for the log kept in the state: the
  connection phase of a mapping run, and the transfer of one file.
\<close>

datatype remote_op = Connect | Transfer string

text \<open>
  The state the engine works on: the two tables of the tracker's database, keyed
  as their unique constraints say, and the log of remote operations issued so far
  (the log is not in the program; it records which remote calls a run makes).
  A statement on a table is a function on the state: the storage itself does not
  fail, apart from the insert of a job under an id that exists.
\<close>

record world =
  synced_files :: "(string \<times> string \<times> string) \<rightharpoonup> SyncedFile"
  sync_jobs :: "string \<rightharpoonup> SyncJob"
  remote_log :: "remote_op list"

definition getSyncedFile :: "world \<Rightarrow> string \<Rightarrow> string \<Rightarrow> string \<Rightarrow> SyncedFile option" where
  "getSyncedFile db tid mid lpath = synced_files db (tid, mid, lpath)"

definition upsertSyncedFile :: "SyncedFile \<Rightarrow> world \<Rightarrow> world" where
  "upsertSyncedFile file db =
     db\<lparr>synced_files := (synced_files db)((tenantId file, mappingId file, localPath file) \<mapsto> file)\<rparr>"

definition needsSync :: "world \<Rightarrow> string \<Rightarrow> string \<Rightarrow> string \<Rightarrow> string \<Rightarrow> bool" where
  "needsSync db tid mid lpath currentHash =
     (case getSyncedFile db tid mid lpath of
        None \<Rightarrow> True
      | Some existing \<Rightarrow>
          if status existing = Failed then True
          else if fileHash existing \<noteq> currentHash then True
          else False)"

text \<open>
  \<open>createJob\<close>: the job id (time and random digits in the source) and the clock
  reading are supplied by the caller; the insert fails on a duplicate primary key.
\<close>

definition createJob :: "string \<Rightarrow> string \<Rightarrow> string \<Rightarrow> string option \<Rightarrow> world \<Rightarrow> string + (SyncJob \<times> world)" where
  "createJob jid now tid mid db =
     (let job = \<lparr>job_id = jid, job_tenantId = tid, job_mappingId = mid, job_status = JobPending,
                 startedAt = now, completedAt = None, filesTotal = 0, filesProcessed = 0,
                 filesFailed = 0, bytesTotal = 0, bytesTransferred = 0, errors = []\<rparr>
      in case sync_jobs db jid of
           Some other \<Rightarrow> Inl ''UNIQUE constraint failed: sync_jobs.id''
         | None \<Rightarrow> Inr (job, db\<lparr>sync_jobs := (sync_jobs db)(jid \<mapsto> job)\<rparr>))"

definition update_job :: "string \<Rightarrow> (SyncJob \<Rightarrow> SyncJob) \<Rightarrow> world \<Rightarrow> world" where
  "update_job jid f db =
     (case sync_jobs db jid of
        None \<Rightarrow> db
      | Some row \<Rightarrow> db\<lparr>sync_jobs := (sync_jobs db)(jid \<mapsto> f row)\<rparr>)"

definition updateJobProgress :: "string \<Rightarrow> nat \<Rightarrow> nat \<Rightarrow> nat option \<Rightarrow> world \<Rightarrow> world" where
  "updateJobProgress jid processed transferred failed db =
     update_job jid
       (\<lambda>row. row\<lparr>filesProcessed := processed, bytesTransferred := transferred,
                   filesFailed := (case failed of Some n \<Rightarrow> n | None \<Rightarrow> filesFailed row)\<rparr>) db"

definition setJobTotals :: "string \<Rightarrow> nat \<Rightarrow> nat \<Rightarrow> world \<Rightarrow> world" where
  "setJobTotals jid ftotal btotal db =
     update_job jid (\<lambda>row. row\<lparr>filesTotal := ftotal, bytesTotal := btotal, job_status := JobRunning\<rparr>) db"

definition completeJob :: "string \<Rightarrow> JobStatus \<Rightarrow> SyncError list \<Rightarrow> string \<Rightarrow> world \<Rightarrow> world" where
  "completeJob jid st errs now db =
     update_job jid (\<lambda>row. row\<lparr>job_status := st, completedAt := Some now, errors := errs\<rparr>) db"

definition getJob :: "world \<Rightarrow> string \<Rightarrow> SyncJob option" where
  "getJob db jid = sync_jobs db jid"

section \<open>Sync engine (sync.ts)\<close>

text \<open>
  The progress event handed to the caller's callback: the job row as it is read
  back, the file at hand when there is one, and the phase.
\<close>

datatype Phase = PhaseScanning | PhaseUploading | PhaseComplete | PhaseError

record SyncProgress =
  progress_job :: "SyncJob option"
  currentFile :: "string option"
  phase :: Phase

text \<open>
  What the engine receives from outside during one run: the outcome of the scan
  of the mapping's source (an error message or the inventory), the outcome of the
  connection phase (token, site, library, destination folder), the outcome of each
  file's transfer (parent folder, read, upload: an error message or the uploaded
  item), the \<open>join\<close> of the path library, the clock, the fresh job id, and the
  optional progress callback: on an event it returns (\<open>None\<close>) or throws an
  error with a message.
\<close>

record engine_env =
  scan :: "string + ScannedFile list"
  connect :: "string + unit"
  transfer :: "ScannedFile \<Rightarrow> string + SharePointItem"
  path_join :: "string \<Rightarrow> string \<Rightarrow> string"
  now :: string
  newJobId :: string
  onProgress :: "(SyncProgress \<Rightarrow> string option) option"

text \<open>
  \<open>updateProgress\<close> reads the job row and calls the callback when there is one;
  the result is the message of the error the callback throws, if it throws.
\<close>

definition updateProgress :: "engine_env \<Rightarrow> string \<Rightarrow> Phase \<Rightarrow> string option \<Rightarrow> world \<Rightarrow> string option" where
  "updateProgress env jid ph cur db =
     (case onProgress env of
        None \<Rightarrow> None
      | Some callback \<Rightarrow> callback \<lparr>progress_job = getJob db jid, currentFile = cur, phase = ph\<rparr>)"

text \<open>The callback, when there is one, returns on every event.\<close>

definition callback_returns :: "engine_env \<Rightarrow> bool" where
  "callback_returns env \<longleftrightarrow> (\<forall>callback p. onProgress env = Some callback \<longrightarrow> callback p = None)"

definition log_remote :: "remote_op \<Rightarrow> world \<Rightarrow> world" where
  "log_remote op db = db\<lparr>remote_log := remote_log db @ [op]\<rparr>"

definition remotePath_of :: "engine_env \<Rightarrow> TenantConfig \<Rightarrow> SyncMapping \<Rightarrow> ScannedFile \<Rightarrow> string" where
  "remotePath_of env tenant mapping file =
     (let destFolder = (case destination_folder mapping of None \<Rightarrow> [] | Some d \<Rightarrow> d)
      in if preserveFolderStructure tenant
         then path_join env destFolder (relativePath file)
         else path_join env destFolder (name file))"

definition synced_record :: "engine_env \<Rightarrow> TenantConfig \<Rightarrow> SyncMapping \<Rightarrow> ScannedFile \<Rightarrow> SharePointItem \<Rightarrow> SyncedFile" where
  "synced_record env tenant mapping file item =
     \<lparr>tenantId = tenant_id tenant, mappingId = mapping_id mapping, localPath = path file,
      remotePath = remotePath_of env tenant mapping file, driveItemId = item_id item,
      fileHash = hash file, fileSize = size_bytes file,
      localModifiedAt = modifiedAt file, remoteModifiedAt = lastModifiedDateTime item,
      syncedAt = now env, status = Synced, errorMessage = None\<rparr>"

definition failed_record :: "engine_env \<Rightarrow> TenantConfig \<Rightarrow> SyncMapping \<Rightarrow> ScannedFile \<Rightarrow> string \<Rightarrow> SyncedFile" where
  "failed_record env tenant mapping file msg =
     \<lparr>tenantId = tenant_id tenant, mappingId = mapping_id mapping, localPath = path file,
      remotePath = '''', driveItemId = '''',
      fileHash = hash file, fileSize = size_bytes file,
      localModifiedAt = modifiedAt file, remoteModifiedAt = '''',
      syncedAt = now env, status = Failed, errorMessage = Some msg\<rparr>"

text \<open>
  The upload loop of \<open>syncMapping\<close>: the loop state is the error list, the two
  counters and the database. The body of the inner \<open>try\<close> starts with the
  progress event of the file; an error thrown by the callback there is caught
  like a failed transfer, before any remote operation for the file.
\<close>

definition attempt_file :: "engine_env \<Rightarrow> string \<Rightarrow> ScannedFile \<Rightarrow> world \<Rightarrow> (string + SharePointItem) \<times> world" where
  "attempt_file env jid file db =
     (case updateProgress env jid PhaseUploading (Some (relativePath file)) db of
        Some msg \<Rightarrow> (Inl msg, db)
      | None \<Rightarrow> (transfer env file, log_remote (Transfer (path file)) db))"

fun upload_files ::
  "engine_env \<Rightarrow> string \<Rightarrow> TenantConfig \<Rightarrow> SyncMapping \<Rightarrow> ScannedFile list \<Rightarrow>
   SyncError list \<times> nat \<times> nat \<times> world \<Rightarrow> SyncError list \<times> nat \<times> nat \<times> world" where
  "upload_files env jid tenant mapping [] st = st"
| "upload_files env jid tenant mapping (file # rest) (errs, processed, transferred, db) =
     (case attempt_file env jid file db of
        (Inr item, db1) \<Rightarrow>
          (let db2 = upsertSyncedFile (synced_record env tenant mapping file item) db1;
               transferred' = transferred + size_bytes file;
               processed' = processed + 1;
               db3 = updateJobProgress jid processed' transferred' None db2
           in upload_files env jid tenant mapping rest (errs, processed', transferred', db3))
      | (Inl msg, db1) \<Rightarrow>
          (let errs' = errs @ [\<lparr>filePath = path file, error = msg, timestamp = now env, retryCount = 0\<rparr>];
               db2 = upsertSyncedFile (failed_record env tenant mapping file msg) db1;
               db3 = updateJobProgress jid processed transferred (Some (length errs')) db2
           in upload_files env jid tenant mapping rest (errs', processed, transferred, db3)))"

definition filesToSync_of :: "world \<Rightarrow> string \<Rightarrow> string \<Rightarrow> ScannedFile list \<Rightarrow> ScannedFile list" where
  "filesToSync_of db tid mid files = filter (\<lambda>file. needsSync db tid mid (path file) (hash file)) files"

text \<open>
  The body of the outer \<open>try\<close> of \<open>syncMapping\<close>: \<open>Inl\<close> is the message of an
  error that escapes it (from the scan, the connection or the callback),
  \<open>Inr\<close> the job row read back at the end. The scanner reports every file it
  finds to the callback too, but catches what the callback throws there, so
  these events do not change the run.
\<close>

definition syncMapping_try ::
  "TenantConfig \<Rightarrow> SyncMapping \<Rightarrow> engine_env \<Rightarrow> string \<Rightarrow> world \<Rightarrow> (string + SyncJob option) \<times> world" where
  "syncMapping_try tenant mapping env jid db1 =
     (case updateProgress env jid PhaseScanning None db1 of
        Some thrown \<Rightarrow> (Inl thrown, db1)
      | None \<Rightarrow>
          (case scan env of
             Inl msg \<Rightarrow> (Inl msg, db1)
           | Inr files \<Rightarrow>
               (let scanning = map (\<lambda>f. updateProgress env jid PhaseScanning (Some (relativePath f)) db1) files;
                    filesToSync = filesToSync_of db1 (tenant_id tenant) (mapping_id mapping) files;
                    db2 = setJobTotals jid (length filesToSync)
                            (foldl (\<lambda>sum f. sum + size_bytes f) 0 filesToSync) db1
                in if length filesToSync = 0 then
                     (let db3 = completeJob jid JobCompleted [] (now env) db2 in
                      case updateProgress env jid PhaseComplete None db3 of
                        Some thrown \<Rightarrow> (Inl thrown, db3)
                      | None \<Rightarrow> (Inr (getJob db3 jid), db3))
                   else
                     (case updateProgress env jid PhaseUploading None db2 of
                        Some thrown \<Rightarrow> (Inl thrown, db2)
                      | None \<Rightarrow>
                          (let db3 = log_remote Connect db2 in
                           case connect env of
                             Inl msg \<Rightarrow> (Inl msg, db3)
                           | Inr u \<Rightarrow>
                               (case upload_files env jid tenant mapping filesToSync ([], 0, 0, db3) of
                                  (errs, processed, transferred, db4) \<Rightarrow>
                                    (let finalStatus =
                                           (if length errs = 0 then JobCompleted
                                            else if length errs < length filesToSync then JobCompleted
                                            else JobFailed);
                                         db5 = completeJob jid finalStatus errs (now env) db4
                                     in case updateProgress env jid PhaseComplete None db5 of
                                          Some thrown \<Rightarrow> (Inl thrown, db5)
                                        | None \<Rightarrow> (Inr (getJob db5 jid), db5))))))))"

text \<open>
  \<open>syncMapping\<close>. Job creation is outside the \<open>try\<close>. The \<open>catch\<close> marks the
  job failed with one error for the mapping's source, emits the \<open>error\<close> event,
  and returns the job row. The result is \<open>Inl\<close> when the call rejects: job
  creation fails, or the callback throws on the \<open>error\<close> event.
\<close>

definition syncMapping ::
  "TenantConfig \<Rightarrow> SyncMapping \<Rightarrow> engine_env \<Rightarrow> world \<Rightarrow> (string + SyncJob option) \<times> world" where
  "syncMapping tenant mapping env db =
     (case createJob (newJobId env) (now env) (tenant_id tenant) (Some (mapping_id mapping)) db of
        Inl e \<Rightarrow> (Inl e, db)
      | Inr (job, db1) \<Rightarrow>
          (case syncMapping_try tenant mapping env (job_id job) db1 of
             (Inr result, db') \<Rightarrow> (Inr result, db')
           | (Inl msg, db') \<Rightarrow>
               (let db'' = completeJob (job_id job) JobFailed
                             [\<lparr>filePath = source mapping, error = msg, timestamp = now env, retryCount = 0\<rparr>]
                             (now env) db'
                in case updateProgress env (job_id job) PhaseError None db'' of
                     Some thrown \<Rightarrow> (Inl thrown, db'')
                   | None \<Rightarrow> (Inr (getJob db'' (job_id job)), db''))))"

record DryRunResult =
  toSync :: "ScannedFile list"
  upToDate :: nat
  totalSize :: nat

fun dryRun_loop ::
  "string \<Rightarrow> string \<Rightarrow> ScannedFile list \<Rightarrow> ScannedFile list \<times> nat \<times> world \<Rightarrow> ScannedFile list \<times> nat \<times> world" where
  "dryRun_loop tid mid [] st = st"
| "dryRun_loop tid mid (file # rest) (acc, n, db) =
     (if needsSync db tid mid (path file) (hash file)
      then dryRun_loop tid mid rest (acc @ [file], n, db)
      else dryRun_loop tid mid rest (acc, n + 1, db))"

text \<open>\<open>dryRun\<close> rejects (\<open>Inl\<close>) when the scan does.\<close>

definition dryRun ::
  "TenantConfig \<Rightarrow> SyncMapping \<Rightarrow> engine_env \<Rightarrow> world \<Rightarrow> (string + DryRunResult) \<times> world" where
  "dryRun tenant mapping env db =
     (case scan env of
        Inl msg \<Rightarrow> (Inl msg, db)
      | Inr files \<Rightarrow>
          (case dryRun_loop (tenant_id tenant) (mapping_id mapping) files ([], 0, db) of
             (acc, n, db') \<Rightarrow>
               (Inr \<lparr>toSync = acc, upToDate = n,
                     totalSize = foldl (\<lambda>sum f. sum + size_bytes f) 0 acc\<rparr>, db')))"

section \<open>String helpers of the host language\<close>

text \<open>
  \<open>split_on\<close> and \<open>join\<close> are \<open>String.split\<close> with a one-character separator
  and \<open>Array.join\<close>; \<open>js_slice\<close> is \<open>slice(start, end)\<close>, where a negative
  index counts from the end and both are clamped to the length; \<open>lastIndexOf\<close>
  is \<open>-1\<close> when the character does not occur; \<open>trim\<close> removes the white
  space of the language at both ends (below 256: tab, line feed, vertical tab,
  form feed, carriage return, space and the no-break space); \<open>toUpperCase\<close>
  maps the ASCII letters, which is what a comparison with the reserved names,
  all ASCII and without \<open>SS\<close>, can see.
\<close>

fun split_on :: "char \<Rightarrow> string \<Rightarrow> string list" where
  "split_on c [] = [] # []"
| "split_on c (x # xs) =
     (if x = c then [] # split_on c xs
      else (case split_on c xs of [] \<Rightarrow> [x] # [] | y # ys \<Rightarrow> (x # y) # ys))"

fun join :: "string \<Rightarrow> string list \<Rightarrow> string" where
  "join sep [] = []"
| "join sep [x] = x"
| "join sep (x # y # ys) = x @ sep @ join sep (y # ys)"

definition js_index :: "int \<Rightarrow> int \<Rightarrow> nat" where
  "js_index len i = nat (if i < 0 then max (len + i) 0 else min i len)"

definition js_slice :: "'a list \<Rightarrow> int \<Rightarrow> int \<Rightarrow> 'a list" where
  "js_slice s start end =
     (let len = int (length s); from = js_index len start; to = js_index len end
      in take (to - from) (drop from s))"

definition lastIndexOf :: "char \<Rightarrow> string \<Rightarrow> int" where
  "lastIndexOf c s =
     (if c \<in> set s then int (length s) - 1 - int (length (takeWhile (\<lambda>x. x \<noteq> c) (rev s)))
      else - 1)"

definition is_space :: "char \<Rightarrow> bool" where
  "is_space c \<longleftrightarrow> c \<in> set [CHR '' '', CHR 0x09, CHR 0x0A, CHR 0x0B, CHR 0x0C, CHR 0x0D, CHR 0xA0]"

definition trim :: "string \<Rightarrow> string" where
  "trim s = rev (dropWhile is_space (rev (dropWhile is_space s)))"

definition toUpperCase_char :: "char \<Rightarrow> char" where
  "toUpperCase_char c =
     (case map_of (zip ''abcdefghijklmnopqrstuvwxyz'' ''ABCDEFGHIJKLMNOPQRSTUVWXYZ'') c of
        Some u \<Rightarrow> u
      | None \<Rightarrow> c)"

definition toUpperCase :: "string \<Rightarrow> string" where
  "toUpperCase s = map toUpperCase_char s"

section \<open>Constants (constants.ts)\<close>

definition CHUNK_SIZE :: int where
  "CHUNK_SIZE = 10 * 1024 * 1024"

definition SMALL_FILE_THRESHOLD :: int where
  "SMALL_FILE_THRESHOLD = 4 * 1024 * 1024"

definition INVALID_CHARS :: "char list" where
  "INVALID_CHARS =
     [CHR ''~'', CHR ''#'', CHR ''%'', CHR ''&'', CHR ''*'', CHR ''{'', CHR ''}'', CHR 0x5C,
      CHR '':'', CHR ''<'', CHR ''>'', CHR ''?'', CHR ''/'', CHR ''|'', CHR 0x22]"

definition RESERVED_NAMES :: "string list" where
  "RESERVED_NAMES =
     [''.lock'', ''CON'', ''PRN'', ''AUX'', ''NUL'',
      ''COM0'', ''COM1'', ''COM2'', ''COM3'', ''COM4'', ''COM5'', ''COM6'', ''COM7'', ''COM8'', ''COM9'',
      ''LPT0'', ''LPT1'', ''LPT2'', ''LPT3'', ''LPT4'', ''LPT5'', ''LPT6'', ''LPT7'', ''LPT8'', ''LPT9'',
      ''_vti_'', ''desktop.ini'']"

section \<open>Graph client (graph.ts)\<close>

subsection \<open>Name sanitization\<close>

definition replace_invalid :: "string \<Rightarrow> string" where
  "replace_invalid nm = foldl (\<lambda>sanitized ch. join ''_'' (split_on ch sanitized)) nm INVALID_CHARS"

text \<open>The regular expression of the source removes the leading and the trailing run of dots.\<close>

definition strip_dots :: "string \<Rightarrow> string" where
  "strip_dots s = rev (dropWhile (\<lambda>c. c = CHR ''.'') (rev (dropWhile (\<lambda>c. c = CHR ''.'') s)))"

definition is_reserved :: "string \<Rightarrow> bool" where
  "is_reserved s = list_ex (\<lambda>r. toUpperCase s = toUpperCase r) RESERVED_NAMES"

definition truncate_name :: "string \<Rightarrow> string" where
  "truncate_name sanitized =
     (if int (length sanitized) > 200 then
        (let ext = lastIndexOf CHR ''.'' sanitized in
         if ext > 0 then
           (let extension = js_slice sanitized ext (int (length sanitized))
            in js_slice sanitized 0 (200 - int (length extension)) @ extension)
         else js_slice sanitized 0 200)
      else sanitized)"

definition sanitizeName :: "string \<Rightarrow> string" where
  "sanitizeName nm =
     (let sanitized = replace_invalid nm;
          sanitized = strip_dots (trim sanitized);
          sanitized = (if is_reserved sanitized then ''_'' @ sanitized else sanitized)
      in truncate_name sanitized)"

subsection \<open>The remote service and the client's requests\<close>

text \<open>
  An error thrown by a request: the HTTP status code when there is one, and the
  message.
\<close>

datatype js_error = Error "nat option" string

text \<open>
  The requests the client sends: a GET of an endpoint, the POST that creates a
  child folder (body: name, \<open>folder\<close>, conflict behaviour \<open>fail\<close>), the POST
  that creates an upload session (conflict behaviour \<open>replace\<close>, name), the PUT
  of a whole content, and the ranged PUT of a chunk to an upload URL
  (\<open>Content-Range: bytes rangeStart-rangeEnd/totalSize\<close>).
\<close>

datatype api_request =
    Get string
  | PostFolder string string
  | PostSession string string
  | PutContent string Buffer
  | PutRange string Buffer int int int

text \<open>
  The outcome of a ranged PUT: the request itself throws (no response, or a body
  that is not JSON), or the response is not ok and has a text, or it is ok with
  a JSON body that carries a completed item or none.
\<close>

datatype chunk_response = Threw string | NotOk string | OkJson "SharePointItem option"

text \<open>
  The remote service is a parameter: how it answers each kind of request in a
  state \<open>'r\<close> of its own, and the state after the request.
\<close>

record 'r graph_service =
  on_get :: "string \<Rightarrow> 'r \<Rightarrow> (js_error + SharePointItem) \<times> 'r"
  on_post_folder :: "string \<Rightarrow> string \<Rightarrow> 'r \<Rightarrow> (js_error + SharePointItem) \<times> 'r"
  on_post_session :: "string \<Rightarrow> string \<Rightarrow> 'r \<Rightarrow> (js_error + UploadSession) \<times> 'r"
  on_put :: "string \<Rightarrow> Buffer \<Rightarrow> 'r \<Rightarrow> (js_error + SharePointItem) \<times> 'r"
  on_put_range :: "string \<Rightarrow> Buffer \<Rightarrow> int \<Rightarrow> int \<Rightarrow> int \<Rightarrow> 'r \<Rightarrow> chunk_response \<times> 'r"

text \<open>The client's view: the remote state and the requests sent so far, in order.\<close>

record 'r client =
  remote :: 'r
  sent :: "api_request list"

definition api_get :: "'r graph_service \<Rightarrow> string \<Rightarrow> 'r client \<Rightarrow> (js_error + SharePointItem) \<times> 'r client" where
  "api_get G endpoint c =
     (case on_get G endpoint (remote c) of
        (res, r') \<Rightarrow> (res, \<lparr>remote = r', sent = sent c @ [Get endpoint]\<rparr>))"

definition api_post_folder ::
  "'r graph_service \<Rightarrow> string \<Rightarrow> string \<Rightarrow> 'r client \<Rightarrow> (js_error + SharePointItem) \<times> 'r client" where
  "api_post_folder G endpoint nm c =
     (case on_post_folder G endpoint nm (remote c) of
        (res, r') \<Rightarrow> (res, \<lparr>remote = r', sent = sent c @ [PostFolder endpoint nm]\<rparr>))"

definition api_post_session ::
  "'r graph_service \<Rightarrow> string \<Rightarrow> string \<Rightarrow> 'r client \<Rightarrow> (js_error + UploadSession) \<times> 'r client" where
  "api_post_session G endpoint nm c =
     (case on_post_session G endpoint nm (remote c) of
        (res, r') \<Rightarrow> (res, \<lparr>remote = r', sent = sent c @ [PostSession endpoint nm]\<rparr>))"

definition api_put ::
  "'r graph_service \<Rightarrow> string \<Rightarrow> Buffer \<Rightarrow> 'r client \<Rightarrow> (js_error + SharePointItem) \<times> 'r client" where
  "api_put G endpoint content c =
     (case on_put G endpoint content (remote c) of
        (res, r') \<Rightarrow> (res, \<lparr>remote = r', sent = sent c @ [PutContent endpoint content]\<rparr>))"

subsection \<open>Folders\<close>

definition parent_endpoint :: "string \<Rightarrow> string \<Rightarrow> string" where
  "parent_endpoint driveId currentPath =
     (let joined = join ''/'' (butlast (split_on CHR ''/'' currentPath));
          parentPath = (if joined = [] then ''/'' else joined)
      in if parentPath = ''/'' then ''/drives/'' @ driveId @ ''/root/children''
         else ''/drives/'' @ driveId @ ''/root:'' @ parentPath @ '':/children'')"

text \<open>
  The loop of \<open>ensureFolder\<close> over the path segments. The current item is absent
  before the first segment, as in the source.
\<close>

fun ensureFolder_loop ::
  "'r graph_service \<Rightarrow> string \<Rightarrow> string list \<Rightarrow> string \<Rightarrow> SharePointItem option \<Rightarrow> 'r client \<Rightarrow>
   (js_error + SharePointItem option) \<times> 'r client" where
  "ensureFolder_loop G driveId [] currentPath currentItem c = (Inr currentItem, c)"
| "ensureFolder_loop G driveId (part # rest) currentPath0 currentItem c =
     (let currentPath = currentPath0 @ ''/'' @ part;
          sanitizedPart = sanitizeName part
      in case api_get G (''/drives/'' @ driveId @ ''/root:'' @ currentPath) c of
           (Inr item, c1) \<Rightarrow> ensureFolder_loop G driveId rest currentPath (Some item) c1
         | (Inl (Error statusCode msg), c1) \<Rightarrow>
             if statusCode = Some 404 then
               (case api_post_folder G (parent_endpoint driveId currentPath) sanitizedPart c1 of
                  (Inr item, c2) \<Rightarrow> ensureFolder_loop G driveId rest currentPath (Some item) c2
                | (Inl e, c2) \<Rightarrow> (Inl e, c2))
             else (Inl (Error statusCode msg), c1))"

definition ensureFolder ::
  "'r graph_service \<Rightarrow> string \<Rightarrow> string \<Rightarrow> 'r client \<Rightarrow> (js_error + SharePointItem option) \<times> 'r client" where
  "ensureFolder G driveId folderPath c =
     (if folderPath = [] \<or> folderPath = ''/'' then
        (case api_get G (''/drives/'' @ driveId @ ''/root'') c of
           (Inr item, c1) \<Rightarrow> (Inr (Some item), c1)
         | (Inl e, c1) \<Rightarrow> (Inl e, c1))
      else ensureFolder_loop G driveId (filter (\<lambda>p. p \<noteq> []) (split_on CHR ''/'' folderPath)) [] None c)"

subsection \<open>Uploads\<close>

definition upload_endpoint :: "string \<Rightarrow> string \<Rightarrow> string \<Rightarrow> string \<Rightarrow> string" where
  "upload_endpoint driveId parentPath sanitizedName action =
     (if parentPath \<noteq> [] \<and> parentPath \<noteq> ''/''
      then ''/drives/'' @ driveId @ ''/root:'' @ parentPath @ ''/'' @ sanitizedName @ '':/'' @ action
      else ''/drives/'' @ driveId @ ''/root:/'' @ sanitizedName @ '':/'' @ action)"

definition uploadSmallFile ::
  "'r graph_service \<Rightarrow> string \<Rightarrow> string \<Rightarrow> string \<Rightarrow> Buffer \<Rightarrow> 'r client \<Rightarrow>
   (js_error + SharePointItem) \<times> 'r client" where
  "uploadSmallFile G driveId parentPath fileName content c =
     (let sanitizedName = sanitizeName fileName;
          endpoint = upload_endpoint driveId parentPath sanitizedName ''content''
      in api_put G endpoint content c)"

definition createUploadSession ::
  "'r graph_service \<Rightarrow> string \<Rightarrow> string \<Rightarrow> string \<Rightarrow> 'r client \<Rightarrow> (js_error + UploadSession) \<times> 'r client" where
  "createUploadSession G driveId parentPath fileName c =
     (let sanitizedName = sanitizeName fileName;
          endpoint = upload_endpoint driveId parentPath sanitizedName ''createUploadSession''
      in api_post_session G endpoint sanitizedName c)"

definition uploadChunk ::
  "'r graph_service \<Rightarrow> string \<Rightarrow> Buffer \<Rightarrow> int \<Rightarrow> int \<Rightarrow> int \<Rightarrow> 'r client \<Rightarrow>
   (js_error + SharePointItem option) \<times> 'r client" where
  "uploadChunk G url chunk rangeStart rangeEnd totalSz c =
     (case on_put_range G url chunk rangeStart rangeEnd totalSz (remote c) of
        (resp, r') \<Rightarrow>
          (let c' = \<lparr>remote = r', sent = sent c @ [PutRange url chunk rangeStart rangeEnd totalSz]\<rparr>
           in case resp of
                Threw msg \<Rightarrow> (Inl (Error None msg), c')
              | NotOk txt \<Rightarrow> (Inl (Error None (''Chunk upload failed: '' @ txt)), c')
              | OkJson result \<Rightarrow> (Inr result, c')))"

text \<open>
  The optional progress callback of an upload receives the number of bytes
  uploaded so far and the total; it returns (\<open>None\<close>) or throws an error with
  a message.
\<close>

type_synonym UploadProgress = "(int \<Rightarrow> int \<Rightarrow> string option) option"

definition call_onProgress :: "UploadProgress \<Rightarrow> int \<Rightarrow> int \<Rightarrow> string option" where
  "call_onProgress onProgress' uploaded totalSz =
     (case onProgress' of None \<Rightarrow> None | Some callback \<Rightarrow> callback uploaded totalSz)"


text \<open>
  The \<open>while\<close> loop of \<open>uploadLargeFile\<close>, with the chunk size as a parameter.
  After each chunk that the service accepts the callback is called with the new
  offset, before the result of the chunk is looked at; an error it throws ends
  the upload. The loop need not end (a chunk size that is not positive makes no
  progress), so the result is optional: \<open>None\<close> is a run that never returns.
\<close>

partial_function (option) uploadLargeFile_loop ::
  "'r graph_service \<Rightarrow> string \<Rightarrow> int \<Rightarrow> Buffer \<Rightarrow> UploadProgress \<Rightarrow> int \<Rightarrow> 'r client \<Rightarrow>
   ((js_error + SharePointItem) \<times> 'r client) option" where
  "uploadLargeFile_loop G url chunkSize content onProgress' uploaded c =
     (if uploaded < int (length content) then
        (case uploadChunk G url (js_slice content uploaded (min (uploaded + chunkSize - 1) (int (length content) - 1) + 1))
                uploaded (min (uploaded + chunkSize - 1) (int (length content) - 1)) (int (length content)) c of
           (Inl e, c1) \<Rightarrow> Some (Inl e, c1)
         | (Inr result, c1) \<Rightarrow>
             (case call_onProgress onProgress' (min (uploaded + chunkSize - 1) (int (length content) - 1) + 1)
                     (int (length content)) of
                Some thrown \<Rightarrow> Some (Inl (Error None thrown), c1)
              | None \<Rightarrow>
                  (case result of
                     Some item \<Rightarrow> Some (Inr item, c1)
                   | None \<Rightarrow>
                       uploadLargeFile_loop G url chunkSize content onProgress'
                         (min (uploaded + chunkSize - 1) (int (length content) - 1) + 1) c1)))
      else Some (Inl (Error None ''Upload completed but no item returned''), c))"

definition uploadLargeFile ::
  "'r graph_service \<Rightarrow> string \<Rightarrow> string \<Rightarrow> string \<Rightarrow> Buffer \<Rightarrow> UploadProgress \<Rightarrow> 'r client \<Rightarrow>
   ((js_error + SharePointItem) \<times> 'r client) option" where
  "uploadLargeFile G driveId parentPath fileName content onProgress' c =
     (case createUploadSession G driveId parentPath fileName c of
        (Inl e, c1) \<Rightarrow> Some (Inl e, c1)
      | (Inr session, c1) \<Rightarrow>
          uploadLargeFile_loop G (uploadUrl session) CHUNK_SIZE content onProgress' 0 c1)"

definition uploadFile ::
  "'r graph_service \<Rightarrow> string \<Rightarrow> string \<Rightarrow> string \<Rightarrow> Buffer \<Rightarrow> UploadProgress \<Rightarrow> 'r client \<Rightarrow>
   ((js_error + SharePointItem) \<times> 'r client) option" where
  "uploadFile G driveId parentPath fileName content onProgress' c =
     (if int (length content) \<le> SMALL_FILE_THRESHOLD
      then Some (uploadSmallFile G driveId parentPath fileName content c)
      else uploadLargeFile G driveId parentPath fileName content onProgress' c)"

section \<open>Byte ranges\<close>


section \<open>A small drive to run the client against\<close>

text \<open>
  A remote with the behaviour the client relies on: the state is the list of the
  paths of the folders that exist; an item is addressed by its literal path; a
  folder is created under the root or under an existing folder, and creating a
  name that already exists there is refused (conflict behaviour \<open>fail\<close>).
  Uploads are not part of it.
\<close>

definition strip_prefix :: "string \<Rightarrow> string \<Rightarrow> string option" where
  "strip_prefix pre s = (if take (length pre) s = pre then Some (drop (length pre) s) else None)"

definition strip_suffix :: "string \<Rightarrow> string \<Rightarrow> string option" where
  "strip_suffix suf s =
     (if length suf \<le> length s \<and> drop (length s - length suf) s = suf
      then Some (take (length s - length suf) s) else None)"

definition folder_item :: "string \<Rightarrow> SharePointItem" where
  "folder_item p = \<lparr>item_id = p, item_name = last (split_on CHR ''/'' p), lastModifiedDateTime = []\<rparr>"

definition drive_get :: "string \<Rightarrow> string \<Rightarrow> string list \<Rightarrow> (js_error + SharePointItem) \<times> string list" where
  "drive_get driveId endpoint folders =
     (if endpoint = ''/drives/'' @ driveId @ ''/root'' then (Inr (folder_item ''/''), folders)
      else (case strip_prefix (''/drives/'' @ driveId @ ''/root:'') endpoint of
              Some p \<Rightarrow>
                if p \<in> set folders then (Inr (folder_item p), folders)
                else (Inl (Error (Some 404) ''itemNotFound''), folders)
            | None \<Rightarrow> (Inl (Error (Some 400) ''invalidRequest''), folders)))"

definition drive_post_folder ::
  "string \<Rightarrow> string \<Rightarrow> string \<Rightarrow> string list \<Rightarrow> (js_error + SharePointItem) \<times> string list" where
  "drive_post_folder driveId endpoint nm folders =
     (let parent =
            (if endpoint = ''/drives/'' @ driveId @ ''/root/children'' then Some []
             else (case strip_prefix (''/drives/'' @ driveId @ ''/root:'') endpoint of
                     Some q \<Rightarrow> strip_suffix '':/children'' q
                   | None \<Rightarrow> None))
      in case parent of
           None \<Rightarrow> (Inl (Error (Some 400) ''invalidRequest''), folders)
         | Some p \<Rightarrow>
             if p \<noteq> [] \<and> p \<notin> set folders then (Inl (Error (Some 404) ''itemNotFound''), folders)
             else if p @ ''/'' @ nm \<in> set folders
               then (Inl (Error (Some 409) ''nameAlreadyExists''), folders)
             else (Inr (folder_item (p @ ''/'' @ nm)), folders @ [p @ ''/'' @ nm]))"

definition simple_drive :: "string \<Rightarrow> string list graph_service" where
  "simple_drive driveId =
     \<lparr>on_get = drive_get driveId,
      on_post_folder = drive_post_folder driveId,
      on_post_session = (\<lambda>endpoint nm r. (Inl (Error (Some 501) ''notSupported''), r)),
      on_put = (\<lambda>endpoint content r. (Inl (Error (Some 501) ''notSupported''), r)),
      on_put_range = (\<lambda>url chunk rangeStart rangeEnd totalSz r. (NotOk ''notSupported'', r))\<rparr>"

text \<open>
  An upload endpoint that accepts every chunk and completes the item with the
  chunk that ends at the last byte.
\<close>

definition chunk_sink :: "unit graph_service" where
  "chunk_sink =
     \<lparr>on_get = (\<lambda>endpoint r. (Inl (Error (Some 501) ''notSupported''), r)),
      on_post_folder = (\<lambda>endpoint nm r. (Inl (Error (Some 501) ''notSupported''), r)),
      on_post_session = (\<lambda>endpoint nm r. (Inr \<lparr>uploadUrl = ''https://upload/'' @ nm, expirationDateTime = []\<rparr>, r)),
      on_put = (\<lambda>endpoint content r. (Inr \<lparr>item_id = ''item'', item_name = endpoint, lastModifiedDateTime = []\<rparr>, r)),
      on_put_range = (\<lambda>url chunk rangeStart rangeEnd totalSz r.
         (if rangeEnd + 1 < totalSz then OkJson None
          else OkJson (Some \<lparr>item_id = ''item'', item_name = url, lastModifiedDateTime = []\<rparr>), r))\<rparr>"



definition progress_quiet :: "int \<Rightarrow> int \<Rightarrow> string option" where
  "progress_quiet uploaded totalSz = None"


text \<open>A ledger with one record, for running the tracker.\<close>

definition example_record :: "SyncStatus \<Rightarrow> SyncedFile" where
  "example_record st =
     \<lparr>tenantId = ''t1'', mappingId = ''m1'', localPath = ''/src/a.txt'',
      remotePath = ''docs/a.txt'', driveItemId = ''id1'', fileHash = ''h1'', fileSize = 10,
      localModifiedAt = [], remoteModifiedAt = [], syncedAt = [], status = st, errorMessage = None\<rparr>"

definition file_a :: ScannedFile where
  "file_a = \<lparr>path = ''/src/a.txt'', relativePath = ''a.txt'', name = ''a.txt'', size_bytes = 10,
             hash = ''h1'', createdAt = [], modifiedAt = [], isDirectory = False\<rparr>"

definition file_c :: ScannedFile where
  "file_c = \<lparr>path = ''/src/b/c.txt'', relativePath = ''b/c.txt'', name = ''c.txt'', size_bytes = 20,
             hash = ''h2'', createdAt = [], modifiedAt = [], isDirectory = False\<rparr>"

definition example_tenant :: TenantConfig where
  "example_tenant = \<lparr>tenant_id = ''t1'', preserveFolderStructure = True\<rparr>"

definition example_mapping :: SyncMapping where
  "example_mapping = \<lparr>mapping_id = ''m1'', source = ''/src'', destination_folder = Some ''docs''\<rparr>"

definition ok_transfer :: "ScannedFile \<Rightarrow> string + SharePointItem" where
  "ok_transfer f = Inr \<lparr>item_id = ''id:'' @ path f, item_name = name f, lastModifiedDateTime = []\<rparr>"

definition fail_on :: "string \<Rightarrow> ScannedFile \<Rightarrow> string + SharePointItem" where
  "fail_on p f = (if path f = p then Inl ''upload failed'' else ok_transfer f)"

text \<open>A run over the tree \<open>a.txt\<close> (10 bytes), \<open>b/c.txt\<close> (20 bytes).\<close>

definition example_env :: "(ScannedFile \<Rightarrow> string + SharePointItem) \<Rightarrow> string \<Rightarrow> engine_env" where
  "example_env tr jid =
     \<lparr>scan = Inr [file_a, file_c], connect = Inr (), transfer = tr,
      path_join = (\<lambda>a b. a @ ''/'' @ b), now = ''2024-01-01T00:00:00.000Z'', newJobId = jid,
      onProgress = None\<rparr>"

text \<open>
  A callback that returns on every event, and one that throws on the
  \<open>complete\<close> event and returns on the others.
\<close>

definition returns_always :: "SyncProgress \<Rightarrow> string option" where
  "returns_always p = None"

definition throws_at_complete :: "SyncProgress \<Rightarrow> string option" where
  "throws_at_complete p = (if phase p = PhaseComplete then Some ''callback failed'' else None)"

text \<open>The same run with the callback that returns.\<close>

definition quiet_env :: "(ScannedFile \<Rightarrow> string + SharePointItem) \<Rightarrow> string \<Rightarrow> engine_env" where
  "quiet_env tr jid = (example_env tr jid)\<lparr>onProgress := Some returns_always\<rparr>"

definition empty_world :: world where
  "empty_world = \<lparr>synced_files = Map.empty, sync_jobs = Map.empty, remote_log = []\<rparr>"

definition example_ledger :: "SyncStatus \<Rightarrow> world" where
  "example_ledger st = upsertSyncedFile (example_record st) empty_world"

section \<open>Tracker: when a file needs sync\<close>

text \<open>
  C1. \<open>needsSync\<close> is true exactly when the ledger has no record for the key
  (tenant, mapping, path), or the record's status is \<open>failed\<close>, or the record's
  stored hash differs from the current hash; otherwise it is false.
\<close>

theorem needsSync_iff:
  "needsSync db tid mid lpath currentHash \<longleftrightarrow>
     (getSyncedFile db tid mid lpath = None
      \<or> (\<exists>existing. getSyncedFile db tid mid lpath = Some existing
            \<and> (status existing = Failed \<or> fileHash existing \<noteq> currentHash)))"
  by (auto simp: needsSync_def split: option.splits)

theorem needsSync_iff_witness:
  "needsSync (example_ledger Synced) ''t1'' ''m1'' ''/src/a.txt'' ''h2''
   \<and> \<not> needsSync (example_ledger Synced) ''t1'' ''m1'' ''/src/a.txt'' ''h1''
   \<and> needsSync (example_ledger Failed) ''t1'' ''m1'' ''/src/a.txt'' ''h1''
   \<and> needsSync (example_ledger Synced) ''t1'' ''m1'' ''/src/b.txt'' ''h1''"
  using needsSync_iff [of "example_ledger Synced" "''t1''" "''m1''" "''/src/a.txt''" "''h2''"]
        needsSync_iff [of "example_ledger Synced" "''t1''" "''m1''" "''/src/a.txt''" "''h1''"]
        needsSync_iff [of "example_ledger Failed" "''t1''" "''m1''" "''/src/a.txt''" "''h1''"]
        needsSync_iff [of "example_ledger Synced" "''t1''" "''m1''" "''/src/b.txt''" "''h1''"]
  by (simp add: example_ledger_def example_record_def upsertSyncedFile_def getSyncedFile_def
        empty_world_def)

text \<open>
  C9. When a record exists with status \<open>pending\<close>, \<open>syncing\<close> or \<open>deleted\<close>
  and its stored hash equals the current hash, \<open>needsSync\<close> is false: only
  \<open>failed\<close>, a different hash or a missing record force an upload, so a record
  marked \<open>deleted\<close> with an unchanged digest is not synced again.
\<close>

theorem needsSync_false_when_unchanged:
  assumes "getSyncedFile db tid mid lpath = Some existing"
    and "status existing = Pending \<or> status existing = Syncing \<or> status existing = Deleted"
    and "fileHash existing = currentHash"
  shows "\<not> needsSync db tid mid lpath currentHash"
  using assms by (auto simp: needsSync_def)

theorem needsSync_false_when_unchanged_witness:
  "getSyncedFile (example_ledger Deleted) ''t1'' ''m1'' ''/src/a.txt'' = Some (example_record Deleted)
   \<and> status (example_record Deleted) = Deleted
   \<and> fileHash (example_record Deleted) = ''h1''
   \<and> \<not> needsSync (example_ledger Deleted) ''t1'' ''m1'' ''/src/a.txt'' ''h1''"
proof -
  have g: "getSyncedFile (example_ledger Deleted) ''t1'' ''m1'' ''/src/a.txt'' = Some (example_record Deleted)"
    by (simp add: example_ledger_def example_record_def upsertSyncedFile_def getSyncedFile_def
          empty_world_def)
  have s: "status (example_record Deleted) = Pending \<or> status (example_record Deleted) = Syncing
           \<or> status (example_record Deleted) = Deleted"
    by (simp add: example_record_def)
  have h: "fileHash (example_record Deleted) = ''h1''"
    by (simp add: example_record_def)
  from needsSync_false_when_unchanged [OF g s h] g h show ?thesis
    by (simp add: example_record_def)
qed

section \<open>Graph client: names\<close>

lemma dropWhile_both_ends_Nil:
  "rev (dropWhile P (rev (dropWhile P s))) = [] \<longleftrightarrow> list_all P s"
proof -
  have "dropWhile P (rev (dropWhile P s)) = [] \<longleftrightarrow> dropWhile P s = []"
  proof
    assume a: "dropWhile P (rev (dropWhile P s)) = []"
    show "dropWhile P s = []"
    proof (rule ccontr)
      assume n: "dropWhile P s \<noteq> []"
      then have "\<not> P (hd (dropWhile P s))" by (rule hd_dropWhile)
      moreover have "hd (dropWhile P s) \<in> set (rev (dropWhile P s))" using n by simp
      moreover from a have "\<forall>x\<in>set (rev (dropWhile P s)). P x" by simp
      ultimately show False by blast
    qed
  next
    assume b: "dropWhile P s = []"
    show "dropWhile P (rev (dropWhile P s)) = []" unfolding b by simp
  qed
  then show ?thesis by (simp add: list_all_iff)
qed

lemma strip_dots_Nil: "strip_dots s = [] \<longleftrightarrow> list_all (\<lambda>c. c = CHR ''.'') s"
  unfolding strip_dots_def by (rule dropWhile_both_ends_Nil)

lemma not_reserved_Nil: "\<not> is_reserved []"
  by (simp add: is_reserved_def RESERVED_NAMES_def toUpperCase_def)

lemma lastIndexOf_less: "lastIndexOf c s < int (length s)"
  by (simp add: lastIndexOf_def)

lemma truncate_name_Nil: "truncate_name s = [] \<longleftrightarrow> s = []"
proof (cases "int (length s) > 200")
  case False
  then show ?thesis by (simp add: truncate_name_def)
next
  case long: True
  then have ne: "s \<noteq> []" by auto
  show ?thesis
  proof (cases "lastIndexOf CHR ''.'' s > 0")
    case True
    with lastIndexOf_less [of "CHR ''.''" s]
    have "js_slice s (lastIndexOf CHR ''.'' s) (int (length s)) \<noteq> []"
      by (simp add: js_slice_def js_index_def Let_def)
    with True long ne show ?thesis
      by (simp add: truncate_name_def Let_def)
  next
    case False
    with long ne show ?thesis
      by (simp add: truncate_name_def Let_def js_slice_def js_index_def)
  qed
qed

lemma sanitizeName_Nil:
  "sanitizeName nm = [] \<longleftrightarrow> list_all (\<lambda>c. c = CHR ''.'') (trim (replace_invalid nm))"
proof (cases "strip_dots (trim (replace_invalid nm)) = []")
  case True
  then have "sanitizeName nm = []"
    by (simp add: sanitizeName_def Let_def truncate_name_Nil not_reserved_Nil)
  with True show ?thesis by (simp add: strip_dots_Nil)
next
  case False
  then have "sanitizeName nm \<noteq> []"
    by (simp add: sanitizeName_def Let_def truncate_name_Nil)
  with False show ?thesis by (simp add: strip_dots_Nil)
qed

lemma uploadSmallFile_sent:
  "sent (snd (uploadSmallFile G driveId parentPath nm content c)) =
     sent c @ [PutContent (upload_endpoint driveId parentPath (sanitizeName nm) ''content'') content]"
  by (simp add: uploadSmallFile_def api_put_def Let_def split: prod.splits)

text \<open>
  What the replacement of the invalid characters achieves is kept by the later
  steps: no character of the invalid set is in a sanitized name.
\<close>

lemma split_on_chars: "p \<in> set (split_on c s) \<Longrightarrow> x \<in> set p \<Longrightarrow> x \<in> set s \<and> x \<noteq> c"
proof (induction s arbitrary: p)
  case Nil
  then show ?case by simp
next
  case (Cons a s)
  show ?case
  proof (cases "a = c")
    case True
    with Cons.prems have "p = [] \<or> p \<in> set (split_on c s)" by simp
    with Cons.prems(2) Cons.IH show ?thesis by auto
  next
    case False
    show ?thesis
    proof (cases "split_on c s")
      case Nil
      with False Cons.prems show ?thesis by simp
    next
      case (Cons y ys)
      with False Cons.prems(1) have "p = a # y \<or> p \<in> set ys" by simp
      then show ?thesis
      proof
        assume "p = a # y"
        with Cons.prems(2) have "x = a \<or> x \<in> set y" by simp
        moreover have "y \<in> set (split_on c s)" using Cons by simp
        ultimately show ?thesis using False Cons.IH by auto
      next
        assume "p \<in> set ys"
        then have "p \<in> set (split_on c s)" using Cons by simp
        from Cons.IH [OF this Cons.prems(2)] show ?thesis by simp
      qed
    qed
  qed
qed

lemma join_chars: "x \<in> set (join sep ps) \<Longrightarrow> x \<in> set sep \<or> (\<exists>p\<in>set ps. x \<in> set p)"
  by (induction sep ps rule: join.induct) auto

lemma replace_one_chars:
  "x \<in> set (join ''_'' (split_on c s)) \<Longrightarrow> x = CHR ''_'' \<or> (x \<in> set s \<and> x \<noteq> c)"
  using join_chars [of x "''_''" "split_on c s"] split_on_chars [of _ c s x] by auto

lemma replace_all_chars:
  "x \<in> set (foldl (\<lambda>sanitized ch. join ''_'' (split_on ch sanitized)) s cs) \<Longrightarrow>
   x = CHR ''_'' \<or> (x \<in> set s \<and> x \<notin> set cs)"
proof (induction cs arbitrary: s)
  case Nil
  then show ?case by simp
next
  case (Cons c cs)
  from Cons.IH [of "join ''_'' (split_on c s)"] Cons.prems
  have "x = CHR ''_'' \<or> (x \<in> set (join ''_'' (split_on c s)) \<and> x \<notin> set cs)" by simp
  with replace_one_chars [of x c s] show ?case by auto
qed

lemma replace_invalid_valid: "x \<in> set (replace_invalid nm) \<Longrightarrow> x \<notin> set INVALID_CHARS"
proof -
  assume "x \<in> set (replace_invalid nm)"
  from replace_all_chars [OF this [unfolded replace_invalid_def]]
  have "x = CHR ''_'' \<or> x \<notin> set INVALID_CHARS" by blast
  moreover have "CHR ''_'' \<notin> set INVALID_CHARS" by (simp add: INVALID_CHARS_def)
  ultimately show ?thesis by blast
qed

lemma js_slice_subset: "set (js_slice s a b) \<subseteq> set s"
  unfolding js_slice_def Let_def
  by (meson set_take_subset set_drop_subset subset_trans)

lemma truncate_name_subset: "set (truncate_name s) \<subseteq> set s"
  using js_slice_subset [of s] by (auto simp: truncate_name_def Let_def)

lemma trim_subset: "set (trim s) \<subseteq> set s"
  unfolding trim_def by (auto dest!: set_dropWhileD)

lemma strip_dots_subset: "set (strip_dots s) \<subseteq> set s"
  unfolding strip_dots_def by (auto dest!: set_dropWhileD)

lemma sanitizeName_no_invalid_chars: "x \<in> set (sanitizeName nm) \<Longrightarrow> x \<notin> set INVALID_CHARS"
proof -
  assume x: "x \<in> set (sanitizeName nm)"
  let ?s = "strip_dots (trim (replace_invalid nm))"
  from x have "x \<in> set (truncate_name (if is_reserved ?s then ''_'' @ ?s else ?s))"
    by (simp add: sanitizeName_def Let_def)
  with truncate_name_subset have "x \<in> set (if is_reserved ?s then ''_'' @ ?s else ?s)"
    by blast
  then have "x = CHR ''_'' \<or> x \<in> set ?s" by (auto split: if_splits)
  with strip_dots_subset trim_subset have "x = CHR ''_'' \<or> x \<in> set (replace_invalid nm)" by blast
  moreover have "CHR ''_'' \<notin> set INVALID_CHARS" by (simp add: INVALID_CHARS_def)
  ultimately show ?thesis using replace_invalid_valid by blast
qed

text \<open>
  C7. The claim: for every name with characters of the invalid set, the result of
  \<open>sanitizeName\<close> has none of them, has no leading or trailing dot or white
  space, is at most 200 long and keeps the extension; reserved names get the
  prefix \<open>_\<close>. The code breaks two parts of it. The name \<open>. a#\<close> comes out as
  \<open> a_\<close>, with a leading space: white space is trimmed once, before the dots are
  stripped. The name \<open>a#.\<close> followed by 250 letters (253 characters) comes out
  453 long: for an extension longer than 200 the first \<open>slice\<close> gets a
  negative end.
\<close>

theorem sanitizeName_leading_space_and_length:
  "sanitizeName ''. a#'' = '' a_''
   \<and> is_space (hd (sanitizeName ''. a#''))
   \<and> length (''a#.'' @ replicate 250 CHR ''x'') = 253
   \<and> length (sanitizeName (''a#.'' @ replicate 250 CHR ''x'')) = 453"
  by code_simp

text \<open>
  C10. The claim: a name that consists only of dots and white space is
  sanitized to the empty string, and the empty string is then the item name in
  the upload endpoint. For \<open>...\<close> (also behind a no-break space) the code does
  so, and \<open>uploadSmallFile\<close> sends its PUT to \<open>/drives/d/root:/:/content\<close>.
  For \<open>. .\<close> it does not: the result is one space, and the PUT goes to
  \<open>/drives/d/root:/ :/content\<close>. White space is trimmed once, before the dots
  are stripped; it is the defect behind the leading space of C7.
\<close>

theorem sanitizeName_dots_and_spaces:
  "list_all (\<lambda>c. c = CHR ''.'' \<or> is_space c) ''. .''
   \<and> sanitizeName ''. .'' = '' ''
   \<and> sanitizeName ''. .'' \<noteq> []
   \<and> sent (snd (uploadSmallFile chunk_sink ''d'' [] ''. .'' [1, 2, 3] \<lparr>remote = (), sent = []\<rparr>)) =
       [PutContent ''/drives/d/root:/ :/content'' [1, 2, 3]]
   \<and> sanitizeName ''...'' = []
   \<and> sanitizeName (CHR 0xA0 # ''...'') = []
   \<and> sent (snd (uploadSmallFile chunk_sink ''d'' [] ''...'' [1, 2, 3] \<lparr>remote = (), sent = []\<rparr>)) =
       [PutContent ''/drives/d/root:/:/content'' [1, 2, 3]]"
  by code_simp

section \<open>Graph client: folders\<close>

text \<open>
  On a path whose names need no sanitizing the second call finds every segment
  and creates nothing.
\<close>

lemma ensureFolder_twice_plain_path:
  "ensureFolder (simple_drive ''d'') ''d'' ''docs/reports'' \<lparr>remote = [], sent = []\<rparr>
     = (Inr (Some (folder_item ''/docs/reports'')),
        \<lparr>remote = [''/docs'', ''/docs/reports''],
         sent = [Get ''/drives/d/root:/docs'', PostFolder ''/drives/d/root/children'' ''docs'',
                 Get ''/drives/d/root:/docs/reports'',
                 PostFolder ''/drives/d/root:/docs:/children'' ''reports'']\<rparr>)
   \<and> ensureFolder (simple_drive ''d'') ''d'' ''docs/reports''
        \<lparr>remote = [''/docs'', ''/docs/reports''], sent = []\<rparr>
     = (Inr (Some (folder_item ''/docs/reports'')),
        \<lparr>remote = [''/docs'', ''/docs/reports''],
         sent = [Get ''/drives/d/root:/docs'', Get ''/drives/d/root:/docs/reports'']\<rparr>)"
  by code_simp

text \<open>
  Whatever the service: when the lookup of the segment \<open>a#b\<close> under its own
  name is answered with 404 and the creation of \<open>a_b\<close> is refused, the call
  fails with the refusal.
\<close>

lemma sanitizeName_hash_example: "sanitizeName ''a#b'' = ''a_b''"
  by code_simp

lemma split_path_example: "filter (\<lambda>p. p \<noteq> []) (split_on CHR ''/'' ''a#b'') = [''a#b'']"
  by code_simp

lemma parent_endpoint_top: "parent_endpoint driveId ''/a#b'' = ''/drives/'' @ driveId @ ''/root/children''"
  by (simp add: parent_endpoint_def)

lemma ensureFolder_lookup_raw_create_sanitized:
  assumes "on_get G (''/drives/'' @ driveId @ ''/root:/a#b'') r = (Inl (Error (Some 404) m), r1)"
    and "on_post_folder G (''/drives/'' @ driveId @ ''/root/children'') ''a_b'' r1 = (Inl e, r2)"
  shows "ensureFolder G driveId ''a#b'' \<lparr>remote = r, sent = s\<rparr> =
           (Inl e, \<lparr>remote = r2,
                    sent = s @ [Get (''/drives/'' @ driveId @ ''/root:/a#b''),
                                PostFolder (''/drives/'' @ driveId @ ''/root/children'') ''a_b'']\<rparr>)"
  using assms
  by (simp add: ensureFolder_def split_path_example sanitizeName_hash_example parent_endpoint_top
        api_get_def api_post_folder_def)

text \<open>
  C6. The claim: a second \<open>ensureFolder\<close> with the same arguments fetches each
  segment, creates nothing and does not fail, also for names with characters of
  the invalid set. The code looks a segment up under its unsanitized name and
  creates it under the sanitized one. On an empty drive the first call for
  \<open>a#b\<close> creates \<open>a_b\<close>; the second call looks up \<open>a#b\<close> again, does not find
  it, posts \<open>a_b\<close> again and fails on the conflict.
\<close>

theorem ensureFolder_second_call_fails:
  "ensureFolder (simple_drive ''d'') ''d'' ''a#b'' \<lparr>remote = [], sent = []\<rparr>
     = (Inr (Some (folder_item ''/a_b'')),
        \<lparr>remote = [''/a_b''],
         sent = [Get ''/drives/d/root:/a#b'', PostFolder ''/drives/d/root/children'' ''a_b'']\<rparr>)
   \<and> ensureFolder (simple_drive ''d'') ''d'' ''a#b'' \<lparr>remote = [''/a_b''], sent = []\<rparr>
     = (Inl (Error (Some 409) ''nameAlreadyExists''),
        \<lparr>remote = [''/a_b''],
         sent = [Get ''/drives/d/root:/a#b'', PostFolder ''/drives/d/root/children'' ''a_b'']\<rparr>)"
  by code_simp

section \<open>Sync engine: the tracker operations and the upload loop\<close>

text \<open>
  Each tracker operation touches one table; the upload loop is unfolded one file
  at a time, by the outcome of the file's transfer.
\<close>

lemma update_job_frame [simp]:
  "synced_files (update_job jid f db) = synced_files db"
  "remote_log (update_job jid f db) = remote_log db"
  by (simp_all add: update_job_def split: option.splits)

lemma update_job_row:
  "sync_jobs (update_job jid f db) j = (if j = jid then map_option f (sync_jobs db jid) else sync_jobs db j)"
  by (simp add: update_job_def split: option.splits)

lemma upsert_frame [simp]:
  "sync_jobs (upsertSyncedFile r db) = sync_jobs db"
  "remote_log (upsertSyncedFile r db) = remote_log db"
  by (simp_all add: upsertSyncedFile_def)

lemma log_remote_frame [simp]:
  "sync_jobs (log_remote op db) = sync_jobs db"
  "synced_files (log_remote op db) = synced_files db"
  "remote_log (log_remote op db) = remote_log db @ [op]"
  by (simp_all add: log_remote_def)

lemma updateProgress_quiet:
  "callback_returns env \<Longrightarrow> updateProgress env jid ph cur db = None"
  by (auto simp: updateProgress_def callback_returns_def split: option.splits)

lemma attempt_file_quiet:
  "callback_returns env \<Longrightarrow>
   attempt_file env jid file db = (transfer env file, log_remote (Transfer (path file)) db)"
  by (simp add: attempt_file_def updateProgress_quiet)

lemma upload_files_ok:
  "callback_returns env \<Longrightarrow> transfer env g = Inr item \<Longrightarrow>
   upload_files env jid tenant mapping (g # gs) (errs, p, b, db) =
     upload_files env jid tenant mapping gs
       (errs, Suc p, b + size_bytes g,
        updateJobProgress jid (Suc p) (b + size_bytes g) None
          (upsertSyncedFile (synced_record env tenant mapping g item) (log_remote (Transfer (path g)) db)))"
  by (simp add: Let_def attempt_file_quiet)

lemma upload_files_failed:
  "callback_returns env \<Longrightarrow> transfer env g = Inl msg \<Longrightarrow>
   upload_files env jid tenant mapping (g # gs) (errs, p, b, db) =
     upload_files env jid tenant mapping gs
       (errs @ [\<lparr>filePath = path g, error = msg, timestamp = now env, retryCount = 0\<rparr>], p, b,
        updateJobProgress jid p b (Some (Suc (length errs)))
          (upsertSyncedFile (failed_record env tenant mapping g msg) (log_remote (Transfer (path g)) db)))"
  by (simp add: Let_def attempt_file_quiet)

declare upload_files.simps(2) [simp del]

lemma upload_files_errs:
  assumes q: "callback_returns env"
  shows "fst (upload_files env jid tenant mapping fs (errs, p, b, db)) =
     errs @ map (\<lambda>f. \<lparr>filePath = path f, error = projl (transfer env f), timestamp = now env, retryCount = 0\<rparr>)
              (filter (\<lambda>f. isl (transfer env f)) fs)"
proof (induction fs arbitrary: errs p b db)
  case Nil
  show ?case by simp
next
  case (Cons g gs)
  show ?case
  proof (cases "transfer env g")
    case (Inl msg)
    show ?thesis by (simp add: upload_files_failed [OF q Inl] Cons.IH Inl)
  next
    case (Inr item)
    show ?thesis by (simp add: upload_files_ok [OF q Inr] Cons.IH Inr)
  qed
qed

lemma upload_files_processed:
  assumes q: "callback_returns env"
  shows "fst (snd (upload_files env jid tenant mapping fs (errs, p, b, db))) =
     p + length (filter (\<lambda>f. \<not> isl (transfer env f)) fs)"
proof (induction fs arbitrary: errs p b db)
  case Nil
  show ?case by simp
next
  case (Cons g gs)
  show ?case
  proof (cases "transfer env g")
    case (Inl msg)
    show ?thesis by (simp add: upload_files_failed [OF q Inl] Cons.IH Inl)
  next
    case (Inr item)
    show ?thesis by (simp add: upload_files_ok [OF q Inr] Cons.IH Inr)
  qed
qed

lemma upload_files_log:
  assumes q: "callback_returns env"
  shows "remote_log (snd (snd (snd (upload_files env jid tenant mapping fs (errs, p, b, db))))) =
     remote_log db @ map (\<lambda>f. Transfer (path f)) fs"
proof (induction fs arbitrary: errs p b db)
  case Nil
  show ?case by simp
next
  case (Cons g gs)
  show ?case
  proof (cases "transfer env g")
    case (Inl msg)
    show ?thesis by (simp add: upload_files_failed [OF q Inl] Cons.IH updateJobProgress_def)
  next
    case (Inr item)
    show ?thesis by (simp add: upload_files_ok [OF q Inr] Cons.IH updateJobProgress_def)
  qed
qed

lemma upsert_ledger:
  "synced_files (upsertSyncedFile r db) k =
     (if k = (tenantId r, mappingId r, localPath r) then Some r else synced_files db k)"
  by (simp add: upsertSyncedFile_def)

lemma record_keys [simp]:
  "tenantId (synced_record env tenant mapping f item) = tenant_id tenant"
  "mappingId (synced_record env tenant mapping f item) = mapping_id mapping"
  "localPath (synced_record env tenant mapping f item) = path f"
  "tenantId (failed_record env tenant mapping f msg) = tenant_id tenant"
  "mappingId (failed_record env tenant mapping f msg) = mapping_id mapping"
  "localPath (failed_record env tenant mapping f msg) = path f"
  by (simp_all add: synced_record_def failed_record_def)

lemma upload_files_other_keys:
  assumes q: "callback_returns env"
  shows "\<forall>f\<in>set fs. k \<noteq> (tenant_id tenant, mapping_id mapping, path f) \<Longrightarrow>
   synced_files (snd (snd (snd (upload_files env jid tenant mapping fs (errs, p, b, db))))) k = synced_files db k"
proof (induction fs arbitrary: errs p b db)
  case Nil
  show ?case by simp
next
  case (Cons g gs)
  from Cons.prems have rest: "\<forall>f\<in>set gs. k \<noteq> (tenant_id tenant, mapping_id mapping, path f)"
    and here: "k \<noteq> (tenant_id tenant, mapping_id mapping, path g)" by simp_all
  show ?case
  proof (cases "transfer env g")
    case (Inl msg)
    show ?thesis
      using here by (simp add: upload_files_failed [OF q Inl] Cons.IH [OF rest] updateJobProgress_def upsert_ledger)
  next
    case (Inr item)
    show ?thesis
      using here by (simp add: upload_files_ok [OF q Inr] Cons.IH [OF rest] updateJobProgress_def upsert_ledger)
  qed
qed

lemma upload_files_record:
  assumes q: "callback_returns env"
  shows "distinct (map path fs) \<Longrightarrow> f \<in> set fs \<Longrightarrow>
   synced_files (snd (snd (snd (upload_files env jid tenant mapping fs (errs, p, b, db)))))
      (tenant_id tenant, mapping_id mapping, path f) =
     Some (case transfer env f of
             Inr item \<Rightarrow> synced_record env tenant mapping f item
           | Inl msg \<Rightarrow> failed_record env tenant mapping f msg)"
proof (induction fs arbitrary: errs p b db)
  case Nil
  then show ?case by simp
next
  case (Cons g gs)
  from Cons.prems have d: "distinct (map path gs)" by simp
  show ?case
  proof (cases "f \<in> set gs")
    case True
    show ?thesis
    proof (cases "transfer env g")
      case (Inl msg)
      show ?thesis by (simp only: upload_files_failed [OF q Inl] Cons.IH [OF d True])
    next
      case (Inr item)
      show ?thesis by (simp only: upload_files_ok [OF q Inr] Cons.IH [OF d True])
    qed
  next
    case False
    with Cons.prems have fg: "f = g" by simp
    from Cons.prems have "\<forall>f\<in>set gs. (tenant_id tenant, mapping_id mapping, path g) \<noteq>
        (tenant_id tenant, mapping_id mapping, path f)" by auto
    note keep = upload_files_other_keys [OF q this]
    show ?thesis
    proof (cases "transfer env g")
      case (Inl msg)
      show ?thesis unfolding fg
        by (simp add: upload_files_failed [OF q Inl] keep Inl updateJobProgress_def upsert_ledger)
    next
      case (Inr item)
      show ?thesis unfolding fg
        by (simp add: upload_files_ok [OF q Inr] keep Inr updateJobProgress_def upsert_ledger)
    qed
  qed
qed

lemma upload_files_job:
  assumes q: "callback_returns env"
  shows "sync_jobs db jid = Some row \<Longrightarrow>
   sync_jobs (snd (snd (snd (upload_files env jid tenant mapping fs (errs, p, b, db))))) jid =
     Some (row\<lparr>filesProcessed := (if fs = [] then filesProcessed row
                                    else p + length (filter (\<lambda>f. \<not> isl (transfer env f)) fs)),
               bytesTransferred := (if fs = [] then bytesTransferred row
                                    else b + sum_list (map size_bytes (filter (\<lambda>f. \<not> isl (transfer env f)) fs))),
               filesFailed := (if filter (\<lambda>f. isl (transfer env f)) fs = [] then filesFailed row
                               else length errs + length (filter (\<lambda>f. isl (transfer env f)) fs))\<rparr>)"
proof (induction fs arbitrary: errs p b db row)
  case Nil
  then show ?case by simp
next
  case (Cons g gs)
  show ?case
  proof (cases "transfer env g")
    case (Inr item)
    let ?db3 = "updateJobProgress jid (Suc p) (b + size_bytes g) None
                  (upsertSyncedFile (synced_record env tenant mapping g item) (log_remote (Transfer (path g)) db))"
    let ?row1 = "row\<lparr>filesProcessed := Suc p, bytesTransferred := b + size_bytes g\<rparr>"
    have r: "sync_jobs ?db3 jid = Some ?row1"
      using Cons.prems by (simp add: updateJobProgress_def update_job_row)
    show ?thesis
      by (simp add: upload_files_ok [OF q Inr] Cons.IH [OF r] Inr)
  next
    case (Inl msg)
    let ?errs = "errs @ [\<lparr>filePath = path g, error = msg, timestamp = now env, retryCount = 0\<rparr>]"
    let ?db3 = "updateJobProgress jid p b (Some (Suc (length errs)))
                  (upsertSyncedFile (failed_record env tenant mapping g msg) (log_remote (Transfer (path g)) db))"
    let ?row1 = "row\<lparr>filesProcessed := p, bytesTransferred := b, filesFailed := Suc (length errs)\<rparr>"
    have r: "sync_jobs ?db3 jid = Some ?row1"
      using Cons.prems by (simp add: updateJobProgress_def update_job_row)
    show ?thesis
      by (simp add: upload_files_failed [OF q Inl] Cons.IH [OF r] Inl)
  qed
qed

lemma foldl_size_sum: "foldl (\<lambda>sum f. sum + size_bytes f) a fs = a + sum_list (map size_bytes fs)"
  by (induction fs arbitrary: a) auto

lemma createJob_fresh:
  "sync_jobs db jid = None \<Longrightarrow>
   createJob jid nw tid mid db =
     Inr (\<lparr>job_id = jid, job_tenantId = tid, job_mappingId = mid, job_status = JobPending,
           startedAt = nw, completedAt = None, filesTotal = 0, filesProcessed = 0,
           filesFailed = 0, bytesTotal = 0, bytesTransferred = 0, errors = []\<rparr>,
          db\<lparr>sync_jobs := (sync_jobs db)(jid \<mapsto>
            \<lparr>job_id = jid, job_tenantId = tid, job_mappingId = mid, job_status = JobPending,
             startedAt = nw, completedAt = None, filesTotal = 0, filesProcessed = 0,
             filesFailed = 0, bytesTotal = 0, bytesTransferred = 0, errors = []\<rparr>)\<rparr>)"
  by (simp add: createJob_def Let_def)

lemma needsSync_jobs_update [simp]:
  "needsSync (db\<lparr>sync_jobs := js\<rparr>) tid mid p h = needsSync db tid mid p h"
  by (simp add: needsSync_def getSyncedFile_def)

lemma filesToSync_of_jobs_update [simp]:
  "filesToSync_of (db\<lparr>sync_jobs := js\<rparr>) tid mid files = filesToSync_of db tid mid files"
  by (simp add: filesToSync_of_def)

lemma length_filter_less_iff: "length (filter P xs) < length xs \<longleftrightarrow> (\<exists>x\<in>set xs. \<not> P x)"
proof
  assume "length (filter P xs) < length xs"
  then have "filter P xs \<noteq> xs" by auto
  then show "\<exists>x\<in>set xs. \<not> P x" by (simp add: filter_id_conv)
next
  assume "\<exists>x\<in>set xs. \<not> P x"
  then show "length (filter P xs) < length xs" by (auto intro: length_filter_less)
qed

subsection \<open>A whole run\<close>

text \<open>
  The callback returns on every event, the job id is fresh and the scan
  succeeds. Either no file needs sync, and the job is completed at once without
  any remote operation; or the connection succeeds and every file to sync is
  attempted.
\<close>

lemma syncMapping_nothing_to_do:
  assumes q: "callback_returns env"
    and fresh: "sync_jobs db (newJobId env) = None"
    and sc: "scan env = Inr files"
    and none: "filesToSync_of db (tenant_id tenant) (mapping_id mapping) files = []"
  shows "\<exists>job db'. syncMapping tenant mapping env db = (Inr (Some job), db')
     \<and> job_status job = JobCompleted \<and> errors job = [] \<and> filesTotal job = 0
     \<and> filesProcessed job = 0 \<and> filesFailed job = 0 \<and> bytesTotal job = 0
     \<and> synced_files db' = synced_files db \<and> remote_log db' = remote_log db"
proof -
  let ?db1 = "db\<lparr>sync_jobs := (sync_jobs db)(newJobId env \<mapsto>
        \<lparr>job_id = newJobId env, job_tenantId = tenant_id tenant, job_mappingId = Some (mapping_id mapping),
         job_status = JobPending, startedAt = now env, completedAt = None, filesTotal = 0,
         filesProcessed = 0, filesFailed = 0, bytesTotal = 0, bytesTransferred = 0, errors = []\<rparr>)\<rparr>"
  have fts: "filesToSync_of ?db1 (tenant_id tenant) (mapping_id mapping) files = []"
    using none by simp
  show ?thesis
    by (simp add: syncMapping_def syncMapping_try_def updateProgress_quiet [OF q]
          createJob_fresh [OF fresh] sc none Let_def completeJob_def setJobTotals_def
          getJob_def update_job_row)
qed

lemma syncMapping_uploads:
  assumes q: "callback_returns env"
    and fresh: "sync_jobs db (newJobId env) = None"
    and sc: "scan env = Inr files"
    and fts: "fts = filesToSync_of db (tenant_id tenant) (mapping_id mapping) files"
    and ne: "fts \<noteq> []"
    and conn: "connect env = Inr u"
  shows "\<exists>job db'. syncMapping tenant mapping env db = (Inr (Some job), db')
     \<and> errors job = map (\<lambda>f. \<lparr>filePath = path f, error = projl (transfer env f), timestamp = now env, retryCount = 0\<rparr>)
                       (filter (\<lambda>f. isl (transfer env f)) fts)
     \<and> job_status job = (if filter (\<lambda>f. isl (transfer env f)) fts = [] then JobCompleted
                          else if length (filter (\<lambda>f. isl (transfer env f)) fts) < length fts then JobCompleted
                          else JobFailed)
     \<and> filesTotal job = length fts
     \<and> filesProcessed job = length (filter (\<lambda>f. \<not> isl (transfer env f)) fts)
     \<and> filesFailed job = length (filter (\<lambda>f. isl (transfer env f)) fts)
     \<and> remote_log db' = remote_log db @ Connect # map (\<lambda>f. Transfer (path f)) fts
     \<and> (\<forall>k. (\<forall>f\<in>set fts. k \<noteq> (tenant_id tenant, mapping_id mapping, path f)) \<longrightarrow>
              synced_files db' k = synced_files db k)
     \<and> (distinct (map path fts) \<longrightarrow>
          (\<forall>f\<in>set fts. synced_files db' (tenant_id tenant, mapping_id mapping, path f) =
             Some (case transfer env f of
                     Inr item \<Rightarrow> synced_record env tenant mapping f item
                   | Inl msg \<Rightarrow> failed_record env tenant mapping f msg)))"
proof -
  let ?jid = "newJobId env"
  let ?job0 = "\<lparr>job_id = ?jid, job_tenantId = tenant_id tenant, job_mappingId = Some (mapping_id mapping),
         job_status = JobPending, startedAt = now env, completedAt = None, filesTotal = 0,
         filesProcessed = 0, filesFailed = 0, bytesTotal = 0, bytesTransferred = 0, errors = []\<rparr>"
  let ?db1 = "db\<lparr>sync_jobs := (sync_jobs db)(?jid \<mapsto> ?job0)\<rparr>"
  let ?db3 = "log_remote Connect (setJobTotals ?jid (length fts) (foldl (\<lambda>sum f. sum + size_bytes f) 0 fts) ?db1)"
  let ?row = "?job0\<lparr>filesTotal := length fts, bytesTotal := foldl (\<lambda>sum f. sum + size_bytes f) 0 fts,
                    job_status := JobRunning\<rparr>"
  let ?R = "upload_files env ?jid tenant mapping fts ([], 0, 0, ?db3)"
  let ?db4 = "snd (snd (snd ?R))"
  let ?st = "if length (fst ?R) = 0 then JobCompleted
             else if length (fst ?R) < length fts then JobCompleted else JobFailed"
  let ?db5 = "completeJob ?jid ?st (fst ?R) (now env) ?db4"
  note f1 = fts [symmetric]
  have run: "syncMapping tenant mapping env db = (Inr (getJob ?db5 ?jid), ?db5)"
    using ne by (simp add: syncMapping_def syncMapping_try_def updateProgress_quiet [OF q]
                   createJob_fresh [OF fresh] sc f1 conn Let_def case_prod_beta)
  have row3: "sync_jobs ?db3 ?jid = Some ?row"
    by (simp add: setJobTotals_def update_job_row)
  note row4 = upload_files_job [OF q row3, where tenant = tenant and mapping = mapping
                                 and fs = fts and errs = "[]" and p = 0 and b = 0]
  have led3: "synced_files ?db3 = synced_files db" and log3: "remote_log ?db3 = remote_log db @ [Connect]"
    by (simp_all add: setJobTotals_def)
  define job where "job =
      ((?row\<lparr>filesProcessed := length (filter (\<lambda>f. \<not> isl (transfer env f)) fts),
             bytesTransferred := sum_list (map size_bytes (filter (\<lambda>f. \<not> isl (transfer env f)) fts)),
             filesFailed := (if filter (\<lambda>f. isl (transfer env f)) fts = [] then 0
                             else length (filter (\<lambda>f. isl (transfer env f)) fts))\<rparr>)
         \<lparr>job_status := ?st, completedAt := Some (now env), errors := fst ?R\<rparr>)"
  define db' where "db' = ?db5"
  have job5: "getJob ?db5 ?jid = Some job"
    unfolding job_def using ne by (simp add: getJob_def completeJob_def update_job_row row4)
  have led5: "synced_files db' = synced_files ?db4" and log5: "remote_log db' = remote_log ?db4"
    by (simp_all add: db'_def completeJob_def)
  have c0: "syncMapping tenant mapping env db = (Inr (Some job), db')"
    unfolding run job5 db'_def by (rule refl)
  have c1: "errors job = map (\<lambda>f. \<lparr>filePath = path f, error = projl (transfer env f), timestamp = now env, retryCount = 0\<rparr>)
                       (filter (\<lambda>f. isl (transfer env f)) fts)"
    by (simp add: job_def upload_files_errs [OF q])
  have c2: "job_status job = (if filter (\<lambda>f. isl (transfer env f)) fts = [] then JobCompleted
                          else if length (filter (\<lambda>f. isl (transfer env f)) fts) < length fts then JobCompleted
                          else JobFailed)"
    by (simp add: job_def upload_files_errs [OF q])
  have c3: "filesTotal job = length fts" by (simp add: job_def)
  have c4: "filesProcessed job = length (filter (\<lambda>f. \<not> isl (transfer env f)) fts)" by (simp add: job_def)
  have c5: "filesFailed job = length (filter (\<lambda>f. isl (transfer env f)) fts)" by (simp add: job_def)
  have c6: "remote_log db' = remote_log db @ Connect # map (\<lambda>f. Transfer (path f)) fts"
    by (simp add: log5 upload_files_log [OF q] setJobTotals_def)
  have c7: "\<forall>k. (\<forall>f\<in>set fts. k \<noteq> (tenant_id tenant, mapping_id mapping, path f)) \<longrightarrow>
              synced_files db' k = synced_files db k"
    by (simp add: led5 upload_files_other_keys [OF q] setJobTotals_def)
  have c8: "distinct (map path fts) \<longrightarrow>
          (\<forall>f\<in>set fts. synced_files db' (tenant_id tenant, mapping_id mapping, path f) =
             Some (case transfer env f of
                     Inr item \<Rightarrow> synced_record env tenant mapping f item
                   | Inl msg \<Rightarrow> failed_record env tenant mapping f msg))"
    by (simp add: led5 upload_files_record [OF q] setJobTotals_def)
  show ?thesis
    by (rule exI [of _ job], rule exI [of _ db'], intro conjI) (fact c0 c1 c2 c3 c4 c5 c6 c7 c8)+
qed

section \<open>Sync engine: dry run\<close>

lemma dryRun_loop_eq:
  "dryRun_loop tid mid files (acc, n, db) =
     (acc @ filter (\<lambda>f. needsSync db tid mid (path f) (hash f)) files,
      n + length (filter (\<lambda>f. \<not> needsSync db tid mid (path f) (hash f)) files), db)"
  by (induction files arbitrary: acc n) auto

text \<open>
  C8. \<open>dryRun\<close> leaves the state as it was: no record and no job row is
  written and no remote operation is issued. When the scan succeeds it returns the
  files for which \<open>needsSync\<close> is true, the number of the other scanned files
  as up to date, and the sum of the sizes of the returned files.
\<close>

theorem dryRun_read_only:
  assumes "dryRun tenant mapping env db = (res, db')"
  shows "db' = db
     \<and> (\<forall>files. scan env = Inr files \<longrightarrow>
          res = Inr \<lparr>toSync = filter (\<lambda>f. needsSync db (tenant_id tenant) (mapping_id mapping) (path f) (hash f)) files,
                     upToDate = length (filter (\<lambda>f. \<not> needsSync db (tenant_id tenant) (mapping_id mapping) (path f) (hash f)) files),
                     totalSize = sum_list (map size_bytes
                        (filter (\<lambda>f. needsSync db (tenant_id tenant) (mapping_id mapping) (path f) (hash f)) files))\<rparr>)"
  using assms
  by (auto simp: dryRun_def dryRun_loop_eq foldl_size_sum split: sum.splits)

theorem dryRun_read_only_witness:
  "dryRun example_tenant example_mapping (example_env ok_transfer ''job1'') empty_world
     = (Inr \<lparr>toSync = [file_a, file_c], upToDate = 0, totalSize = 30\<rparr>, empty_world)"
proof -
  let ?r = "dryRun example_tenant example_mapping (example_env ok_transfer ''job1'') empty_world"
  have h: "?r = (fst ?r, snd ?r)" by simp
  have sc: "scan (example_env ok_transfer ''job1'') = Inr [file_a, file_c]"
    by (simp add: example_env_def)
  from dryRun_read_only [OF h] sc
  have "snd ?r = empty_world"
    and "fst ?r = Inr \<lparr>toSync = [file_a, file_c], upToDate = 0, totalSize = 30\<rparr>"
    by (simp_all add: needsSync_def getSyncedFile_def empty_world_def file_a_def file_c_def)
  with h show ?thesis by simp
qed

section \<open>Sync engine: the outcome of a run\<close>

text \<open>
  C4, as stated: a run that reaches finalization ends \<open>failed\<close> only when every
  file of the batch failed. It fails when the progress callback throws on the
  \<open>complete\<close> event that follows finalization: both files of the run below are
  uploaded, the final status computed is \<open>completed\<close>, and the outer \<open>catch\<close>
  overwrites it with \<open>failed\<close> and one error for the mapping's source.
\<close>

theorem syncMapping_final_status_counterexample:
  "transfer (example_env ok_transfer ''job1'') file_a = ok_transfer file_a
   \<and> \<not> isl (ok_transfer file_a) \<and> \<not> isl (ok_transfer file_c)
   \<and> fst (syncMapping example_tenant example_mapping
             ((example_env ok_transfer ''job1'')\<lparr>onProgress := Some throws_at_complete\<rparr>) empty_world)
       = Inr (Some \<lparr>job_id = ''job1'', job_tenantId = ''t1'', job_mappingId = Some ''m1'',
                     job_status = JobFailed, startedAt = ''2024-01-01T00:00:00.000Z'',
                     completedAt = Some ''2024-01-01T00:00:00.000Z'', filesTotal = 2,
                     filesProcessed = 2, filesFailed = 0, bytesTotal = 30, bytesTransferred = 30,
                     errors = [\<lparr>filePath = ''/src'', error = ''callback failed'',
                                timestamp = ''2024-01-01T00:00:00.000Z'', retryCount = 0\<rparr>]\<rparr>)"
  by code_simp

text \<open>
  C4, amended. A run whose progress callback (when there is one) returns on every
  event and that reaches its end (fresh job id, successful scan, and a successful
  connection when there is a file to sync) returns the job with one error per
  failed file; its status is \<open>completed\<close> when the error list is empty,
  \<open>completed\<close> when there are fewer errors than files to sync, and \<open>failed\<close>
  exactly when there is a file to sync and every one of them failed.
\<close>

theorem syncMapping_final_status:
  assumes q: "callback_returns env"
    and fresh: "sync_jobs db (newJobId env) = None"
    and sc: "scan env = Inr files"
    and fts: "fts = filesToSync_of db (tenant_id tenant) (mapping_id mapping) files"
    and conn: "fts \<noteq> [] \<longrightarrow> connect env = Inr ()"
  shows "\<exists>job db'. syncMapping tenant mapping env db = (Inr (Some job), db')
     \<and> length (errors job) = length (filter (\<lambda>f. isl (transfer env f)) fts)
     \<and> (job_status job = JobCompleted \<or> job_status job = JobFailed)
     \<and> (errors job = [] \<longrightarrow> job_status job = JobCompleted)
     \<and> (length (errors job) < length fts \<longrightarrow> job_status job = JobCompleted)
     \<and> (job_status job = JobFailed \<longleftrightarrow> fts \<noteq> [] \<and> (\<forall>f\<in>set fts. isl (transfer env f)))"
proof (cases "fts = []")
  case True
  with fts have none: "filesToSync_of db (tenant_id tenant) (mapping_id mapping) files = []" by simp
  from syncMapping_nothing_to_do [OF q fresh sc none] True show ?thesis by auto
next
  case False
  with conn have c: "connect env = Inr ()" by simp
  from syncMapping_uploads [OF q fresh sc fts False c] obtain job db' where
    run: "syncMapping tenant mapping env db = (Inr (Some job), db')"
    and errs: "errors job = map (\<lambda>f. \<lparr>filePath = path f, error = projl (transfer env f), timestamp = now env, retryCount = 0\<rparr>)
                       (filter (\<lambda>f. isl (transfer env f)) fts)"
    and st: "job_status job = (if filter (\<lambda>f. isl (transfer env f)) fts = [] then JobCompleted
                          else if length (filter (\<lambda>f. isl (transfer env f)) fts) < length fts then JobCompleted
                          else JobFailed)"
    by blast
  have l: "length (errors job) = length (filter (\<lambda>f. isl (transfer env f)) fts)"
    by (simp add: errs)
  have e: "errors job = [] \<longleftrightarrow> filter (\<lambda>f. isl (transfer env f)) fts = []"
    by (simp add: errs)
  have f: "job_status job = JobFailed \<longleftrightarrow> fts \<noteq> [] \<and> (\<forall>f\<in>set fts. isl (transfer env f))"
    using False by (auto simp: st length_filter_less_iff filter_empty_conv)
  show ?thesis
    apply (rule exI [of _ job], rule exI [of _ db'])
    using run l f
    by (auto simp: st e l)
qed

theorem syncMapping_final_status_witness:
  "\<exists>job db'. syncMapping example_tenant example_mapping
                 (quiet_env (fail_on ''/src/a.txt'') ''job1'') empty_world = (Inr (Some job), db')
      \<and> length (errors job) = 1 \<and> job_status job = JobCompleted"
proof -
  let ?env = "quiet_env (fail_on ''/src/a.txt'') ''job1''"
  have hq: "callback_returns ?env" by (simp add: callback_returns_def quiet_env_def example_env_def returns_always_def)
  have h1: "sync_jobs empty_world (newJobId ?env) = None" by (simp add: empty_world_def)
  have h2: "scan ?env = Inr [file_a, file_c]" by (simp add: quiet_env_def example_env_def returns_always_def)
  have h3: "[file_a, file_c] =
      filesToSync_of empty_world (tenant_id example_tenant) (mapping_id example_mapping) [file_a, file_c]"
    by (simp add: filesToSync_of_def needsSync_def getSyncedFile_def empty_world_def)
  have h4: "[file_a, file_c] \<noteq> [] \<longrightarrow> connect ?env = Inr ()" by (simp add: quiet_env_def example_env_def returns_always_def)
  have f: "filter (\<lambda>f. isl (transfer ?env f)) [file_a, file_c] = [file_a]"
    by (simp add: quiet_env_def example_env_def returns_always_def fail_on_def ok_transfer_def file_a_def file_c_def)
  from syncMapping_final_status [OF hq h1 h2 h3 h4] show ?thesis
    unfolding f by auto
qed

text \<open>
  C3, as stated: with exactly one failing file \<open>k\<close> the job's error list has
  exactly one entry, and it references \<open>k\<close>. It fails when the progress
  callback throws on the \<open>complete\<close> event: in the run below \<open>a.txt\<close> fails and
  \<open>b/c.txt\<close> is uploaded, and the job comes back with the one error of the
  outer \<open>catch\<close>, which references the mapping's source \<open>/src\<close>.
\<close>

theorem syncMapping_one_failure_counterexample:
  "transfer (example_env (fail_on ''/src/a.txt'') ''job1'') file_a = Inl ''upload failed''
   \<and> \<not> isl (transfer (example_env (fail_on ''/src/a.txt'') ''job1'') file_c)
   \<and> fst (syncMapping example_tenant example_mapping
             ((example_env (fail_on ''/src/a.txt'') ''job1'')\<lparr>onProgress := Some throws_at_complete\<rparr>)
             empty_world)
       = Inr (Some \<lparr>job_id = ''job1'', job_tenantId = ''t1'', job_mappingId = Some ''m1'',
                     job_status = JobFailed, startedAt = ''2024-01-01T00:00:00.000Z'',
                     completedAt = Some ''2024-01-01T00:00:00.000Z'', filesTotal = 2,
                     filesProcessed = 1, filesFailed = 1, bytesTotal = 30, bytesTransferred = 20,
                     errors = [\<lparr>filePath = ''/src'', error = ''callback failed'',
                                timestamp = ''2024-01-01T00:00:00.000Z'', retryCount = 0\<rparr>]\<rparr>)
   \<and> path file_a \<noteq> ''/src''"
  by code_simp

text \<open>
  C3, amended. The progress callback (when there is one) returns on every event,
  the scanned paths are distinct, and of the files to sync exactly the file
  \<open>k\<close> fails while all others succeed. Then the job counts all files but one
  as processed and one as failed, its error list is the one entry for \<open>k\<close>,
  every other file has a \<open>synced\<close> record, the record of \<open>k\<close> is \<open>failed\<close>
  with empty remote path and item id and the hash of the scan, and the files
  after \<open>k\<close> are transferred as well.
\<close>

theorem syncMapping_one_failure:
  assumes q: "callback_returns env"
    and fresh: "sync_jobs db (newJobId env) = None"
    and sc: "scan env = Inr files"
    and dist: "distinct (map path files)"
    and fts: "filesToSync_of db (tenant_id tenant) (mapping_id mapping) files = pre @ k # post"
    and conn: "connect env = Inr ()"
    and bad: "transfer env k = Inl msg"
    and good: "\<forall>f\<in>set pre \<union> set post. \<not> isl (transfer env f)"
  shows "\<exists>job db'. syncMapping tenant mapping env db = (Inr (Some job), db')
     \<and> filesTotal job = Suc (length pre + length post)
     \<and> filesProcessed job = length pre + length post
     \<and> filesFailed job = 1
     \<and> errors job = [\<lparr>filePath = path k, error = msg, timestamp = now env, retryCount = 0\<rparr>]
     \<and> (\<forall>f\<in>set pre \<union> set post.
           \<exists>r. getSyncedFile db' (tenant_id tenant) (mapping_id mapping) (path f) = Some r
               \<and> status r = Synced \<and> fileHash r = hash f)
     \<and> (\<exists>r. getSyncedFile db' (tenant_id tenant) (mapping_id mapping) (path k) = Some r
               \<and> status r = Failed \<and> remotePath r = [] \<and> driveItemId r = []
               \<and> fileHash r = hash k \<and> errorMessage r = Some msg)
     \<and> remote_log db' = remote_log db @ Connect # map (\<lambda>f. Transfer (path f)) (pre @ k # post)"
proof -
  let ?fts = "pre @ k # post"
  have ne: "?fts \<noteq> []" by simp
  have d: "distinct (map path ?fts)"
    using dist fts unfolding filesToSync_of_def by (metis distinct_map_filter)
  have failing: "filter (\<lambda>f. isl (transfer env f)) ?fts = [k]"
    using bad good by (simp add: filter_empty_conv)
  have passing: "length (filter (\<lambda>f. \<not> isl (transfer env f)) ?fts) = length pre + length post"
    using bad good by (simp add: filter_id_conv [THEN iffD2])
  from syncMapping_uploads [OF q fresh sc fts [symmetric] ne conn] obtain job db' where
    run: "syncMapping tenant mapping env db = (Inr (Some job), db')"
    and errs: "errors job = map (\<lambda>f. \<lparr>filePath = path f, error = projl (transfer env f), timestamp = now env, retryCount = 0\<rparr>)
                       (filter (\<lambda>f. isl (transfer env f)) ?fts)"
    and tot: "filesTotal job = length ?fts"
    and proc: "filesProcessed job = length (filter (\<lambda>f. \<not> isl (transfer env f)) ?fts)"
    and fl: "filesFailed job = length (filter (\<lambda>f. isl (transfer env f)) ?fts)"
    and lg: "remote_log db' = remote_log db @ Connect # map (\<lambda>f. Transfer (path f)) ?fts"
    and recs: "distinct (map path ?fts) \<longrightarrow>
          (\<forall>f\<in>set ?fts. synced_files db' (tenant_id tenant, mapping_id mapping, path f) =
             Some (case transfer env f of
                     Inr item \<Rightarrow> synced_record env tenant mapping f item
                   | Inl msg \<Rightarrow> failed_record env tenant mapping f msg))"
    by blast
  have c1: "filesTotal job = Suc (length pre + length post)" by (simp add: tot)
  have c2: "filesProcessed job = length pre + length post" by (simp only: proc passing)
  have c3: "filesFailed job = 1" by (simp only: fl failing) simp
  have c4: "errors job = [\<lparr>filePath = path k, error = msg, timestamp = now env, retryCount = 0\<rparr>]"
    by (simp only: errs failing) (simp add: bad)
  have c5: "\<forall>f\<in>set pre \<union> set post.
           \<exists>r. getSyncedFile db' (tenant_id tenant) (mapping_id mapping) (path f) = Some r
               \<and> status r = Synced \<and> fileHash r = hash f"
  proof
    fix f assume f: "f \<in> set pre \<union> set post"
    then have "f \<in> set ?fts" by auto
    with recs d have "synced_files db' (tenant_id tenant, mapping_id mapping, path f) =
             Some (case transfer env f of
                     Inr item \<Rightarrow> synced_record env tenant mapping f item
                   | Inl msg \<Rightarrow> failed_record env tenant mapping f msg)" by blast
    moreover from good f have "\<not> isl (transfer env f)" by blast
    then obtain item where "transfer env f = Inr item"
      by (cases "transfer env f") auto
    ultimately show "\<exists>r. getSyncedFile db' (tenant_id tenant) (mapping_id mapping) (path f) = Some r
               \<and> status r = Synced \<and> fileHash r = hash f"
      by (simp add: getSyncedFile_def synced_record_def)
  qed
  have c6: "\<exists>r. getSyncedFile db' (tenant_id tenant) (mapping_id mapping) (path k) = Some r
               \<and> status r = Failed \<and> remotePath r = [] \<and> driveItemId r = []
               \<and> fileHash r = hash k \<and> errorMessage r = Some msg"
  proof -
    have "k \<in> set ?fts" by simp
    with recs d have "synced_files db' (tenant_id tenant, mapping_id mapping, path k) =
             Some (case transfer env k of
                     Inr item \<Rightarrow> synced_record env tenant mapping k item
                   | Inl msg \<Rightarrow> failed_record env tenant mapping k msg)" by blast
    then show ?thesis by (simp add: bad getSyncedFile_def failed_record_def)
  qed
  show ?thesis
    by (rule exI [of _ job], rule exI [of _ db'], intro conjI) (fact run c1 c2 c3 c4 c5 c6 lg)+
qed

theorem syncMapping_one_failure_witness:
  "\<exists>job db'. syncMapping example_tenant example_mapping
                 (quiet_env (fail_on ''/src/a.txt'') ''job1'') empty_world = (Inr (Some job), db')
      \<and> filesTotal job = 2 \<and> filesProcessed job = 1 \<and> filesFailed job = 1
      \<and> errors job = [\<lparr>filePath = ''/src/a.txt'', error = ''upload failed'',
                         timestamp = ''2024-01-01T00:00:00.000Z'', retryCount = 0\<rparr>]
      \<and> (\<exists>r. getSyncedFile db' ''t1'' ''m1'' ''/src/b/c.txt'' = Some r \<and> status r = Synced \<and> fileHash r = ''h2'')
      \<and> (\<exists>r. getSyncedFile db' ''t1'' ''m1'' ''/src/a.txt'' = Some r \<and> status r = Failed
               \<and> remotePath r = [] \<and> driveItemId r = [] \<and> fileHash r = ''h1'')
      \<and> remote_log db' = [Connect, Transfer ''/src/a.txt'', Transfer ''/src/b/c.txt'']"
proof -
  let ?env = "quiet_env (fail_on ''/src/a.txt'') ''job1''"
  have hq: "callback_returns ?env" by (simp add: callback_returns_def quiet_env_def example_env_def returns_always_def)
  have h1: "sync_jobs empty_world (newJobId ?env) = None" by (simp add: empty_world_def)
  have h2: "scan ?env = Inr [file_a, file_c]" by (simp add: quiet_env_def example_env_def returns_always_def)
  have h3: "distinct (map path [file_a, file_c])" by (simp add: file_a_def file_c_def)
  have h4: "filesToSync_of empty_world (tenant_id example_tenant) (mapping_id example_mapping) [file_a, file_c]
      = [] @ file_a # [file_c]"
    by (simp add: filesToSync_of_def needsSync_def getSyncedFile_def empty_world_def)
  have h5: "connect ?env = Inr ()" by (simp add: quiet_env_def example_env_def returns_always_def)
  have h6: "transfer ?env file_a = Inl ''upload failed''"
    by (simp add: quiet_env_def example_env_def returns_always_def fail_on_def file_a_def)
  have h7: "\<forall>f\<in>set [] \<union> set [file_c]. \<not> isl (transfer ?env f)"
    by (simp add: quiet_env_def example_env_def returns_always_def fail_on_def ok_transfer_def file_c_def)
  have n: "now ?env = ''2024-01-01T00:00:00.000Z''" by (simp add: quiet_env_def example_env_def returns_always_def)
  from syncMapping_one_failure [OF hq h1 h2 h3 h4 h5 h6 h7] obtain job db' where
    "syncMapping example_tenant example_mapping ?env empty_world = (Inr (Some job), db')"
    "filesTotal job = Suc (length ([]::ScannedFile list) + length [file_c])"
    "filesProcessed job = length ([]::ScannedFile list) + length [file_c]"
    "filesFailed job = 1"
    "errors job = [\<lparr>filePath = path file_a, error = ''upload failed'', timestamp = now ?env, retryCount = 0\<rparr>]"
    "\<forall>f\<in>set [] \<union> set [file_c].
           \<exists>r. getSyncedFile db' (tenant_id example_tenant) (mapping_id example_mapping) (path f) = Some r
               \<and> status r = Synced \<and> fileHash r = hash f"
    "\<exists>r. getSyncedFile db' (tenant_id example_tenant) (mapping_id example_mapping) (path file_a) = Some r
               \<and> status r = Failed \<and> remotePath r = [] \<and> driveItemId r = []
               \<and> fileHash r = hash file_a \<and> errorMessage r = Some ''upload failed''"
    "remote_log db' = remote_log empty_world @ Connect # map (\<lambda>f. Transfer (path f)) ([] @ file_a # [file_c])"
    by blast
  then show ?thesis
    apply (intro exI [of _ job] exI [of _ db'])
    apply (simp add: n example_tenant_def example_mapping_def file_a_def file_c_def empty_world_def)
    by blast
qed

text \<open>
  C2, as stated: after a run in which every upload succeeds, the second run over
  the unchanged tree is completed with zero files. It fails when the progress
  callback of the second run throws on the \<open>complete\<close> event: the second job
  finds nothing to sync, is completed, and is then marked \<open>failed\<close> by the
  outer \<open>catch\<close>.
\<close>

theorem syncMapping_idempotent_counterexample:
  "fst (syncMapping example_tenant example_mapping (example_env ok_transfer ''job1'') empty_world)
       = Inr (Some \<lparr>job_id = ''job1'', job_tenantId = ''t1'', job_mappingId = Some ''m1'',
                     job_status = JobCompleted, startedAt = ''2024-01-01T00:00:00.000Z'',
                     completedAt = Some ''2024-01-01T00:00:00.000Z'', filesTotal = 2,
                     filesProcessed = 2, filesFailed = 0, bytesTotal = 30, bytesTransferred = 30,
                     errors = []\<rparr>)
   \<and> fst (syncMapping example_tenant example_mapping
             ((example_env ok_transfer ''job2'')\<lparr>onProgress := Some throws_at_complete\<rparr>)
             (snd (syncMapping example_tenant example_mapping (example_env ok_transfer ''job1'') empty_world)))
       = Inr (Some \<lparr>job_id = ''job2'', job_tenantId = ''t1'', job_mappingId = Some ''m1'',
                     job_status = JobFailed, startedAt = ''2024-01-01T00:00:00.000Z'',
                     completedAt = Some ''2024-01-01T00:00:00.000Z'', filesTotal = 0,
                     filesProcessed = 0, filesFailed = 0, bytesTotal = 0, bytesTransferred = 0,
                     errors = [\<lparr>filePath = ''/src'', error = ''callback failed'',
                                timestamp = ''2024-01-01T00:00:00.000Z'', retryCount = 0\<rparr>]\<rparr>)"
  by code_simp

text \<open>
  C2, amended. The progress callbacks of both runs (when there are any) return on
  every event and the scanned paths are distinct. After a run in which every
  upload succeeds, no scanned file needs sync, and a second run over the same
  scan completes with zero files, writes no record and issues no remote
  operation.
\<close>

theorem syncMapping_idempotent:
  assumes q1: "callback_returns env1" and q2: "callback_returns env2"
    and dist: "distinct (map path files)"
    and fresh1: "sync_jobs db (newJobId env1) = None"
    and sc1: "scan env1 = Inr files"
    and conn1: "filesToSync_of db (tenant_id tenant) (mapping_id mapping) files \<noteq> [] \<longrightarrow> connect env1 = Inr ()"
    and ok1: "\<forall>f\<in>set (filesToSync_of db (tenant_id tenant) (mapping_id mapping) files). \<not> isl (transfer env1 f)"
    and run1: "syncMapping tenant mapping env1 db = (res1, db1)"
    and sc2: "scan env2 = Inr files"
    and fresh2: "sync_jobs db1 (newJobId env2) = None"
  shows "(\<exists>job1. res1 = Inr (Some job1) \<and> job_status job1 = JobCompleted \<and> errors job1 = [])
     \<and> (\<forall>f\<in>set files. \<not> needsSync db1 (tenant_id tenant) (mapping_id mapping) (path f) (hash f))
     \<and> (\<exists>job2 db2. syncMapping tenant mapping env2 db1 = (Inr (Some job2), db2)
            \<and> job_status job2 = JobCompleted \<and> errors job2 = []
            \<and> filesTotal job2 = 0 \<and> filesProcessed job2 = 0
            \<and> synced_files db2 = synced_files db1 \<and> remote_log db2 = remote_log db1)"
proof -
  let ?tid = "tenant_id tenant" and ?mid = "mapping_id mapping"
  let ?fts = "filesToSync_of db ?tid ?mid files"
  have first: "(\<exists>job1. res1 = Inr (Some job1) \<and> job_status job1 = JobCompleted \<and> errors job1 = [])
      \<and> (\<forall>f\<in>set files. \<not> needsSync db1 ?tid ?mid (path f) (hash f))"
  proof (cases "?fts = []")
    case True
    from syncMapping_nothing_to_do [OF q1 fresh1 sc1 True] run1 obtain job1 where
      "res1 = Inr (Some job1)" "job_status job1 = JobCompleted" "errors job1 = []"
      and led: "synced_files db1 = synced_files db" by auto
    moreover from True have "\<forall>f\<in>set files. \<not> needsSync db ?tid ?mid (path f) (hash f)"
      by (simp add: filesToSync_of_def filter_empty_conv)
    then have "\<forall>f\<in>set files. \<not> needsSync db1 ?tid ?mid (path f) (hash f)"
      by (simp add: needsSync_def getSyncedFile_def led)
    ultimately show ?thesis by blast
  next
    case False
    with conn1 have c: "connect env1 = Inr ()" by simp
    have nofail: "filter (\<lambda>f. isl (transfer env1 f)) ?fts = []"
      using ok1 by (simp add: filter_empty_conv)
    have d: "distinct (map path ?fts)"
      using dist unfolding filesToSync_of_def by (rule distinct_map_filter)
    from syncMapping_uploads [OF q1 fresh1 sc1 refl False c] run1 obtain job1 where
      r1: "res1 = Inr (Some job1)"
      and errs: "errors job1 = map (\<lambda>f. \<lparr>filePath = path f, error = projl (transfer env1 f), timestamp = now env1, retryCount = 0\<rparr>)
                       (filter (\<lambda>f. isl (transfer env1 f)) ?fts)"
      and st: "job_status job1 = (if filter (\<lambda>f. isl (transfer env1 f)) ?fts = [] then JobCompleted
                          else if length (filter (\<lambda>f. isl (transfer env1 f)) ?fts) < length ?fts then JobCompleted
                          else JobFailed)"
      and others: "\<forall>k. (\<forall>f\<in>set ?fts. k \<noteq> (?tid, ?mid, path f)) \<longrightarrow> synced_files db1 k = synced_files db k"
      and recs: "distinct (map path ?fts) \<longrightarrow>
          (\<forall>f\<in>set ?fts. synced_files db1 (?tid, ?mid, path f) =
             Some (case transfer env1 f of
                     Inr item \<Rightarrow> synced_record env1 tenant mapping f item
                   | Inl msg \<Rightarrow> failed_record env1 tenant mapping f msg))"
      by auto
    have j: "job_status job1 = JobCompleted" "errors job1 = []"
      by (simp_all add: st errs nofail)
    have "\<not> needsSync db1 ?tid ?mid (path f) (hash f)" if f: "f \<in> set files" for f
    proof (cases "f \<in> set ?fts")
      case True
      with recs d have "synced_files db1 (?tid, ?mid, path f) =
             Some (case transfer env1 f of
                     Inr item \<Rightarrow> synced_record env1 tenant mapping f item
                   | Inl msg \<Rightarrow> failed_record env1 tenant mapping f msg)" by blast
      moreover from ok1 True have "\<not> isl (transfer env1 f)" by blast
      then obtain item where "transfer env1 f = Inr item"
        by (cases "transfer env1 f") auto
      ultimately show ?thesis
        by (simp add: needsSync_def getSyncedFile_def synced_record_def)
    next
      case False
      with f have old: "\<not> needsSync db ?tid ?mid (path f) (hash f)"
        by (simp add: filesToSync_of_def)
      have "\<forall>g\<in>set ?fts. (?tid, ?mid, path f) \<noteq> (?tid, ?mid, path g)"
      proof
        fix g assume g: "g \<in> set ?fts"
        then have "g \<in> set files" by (simp add: filesToSync_of_def)
        with dist f have "path f = path g \<Longrightarrow> f = g"
          by (meson distinct_map inj_onD)
        with g False show "(?tid, ?mid, path f) \<noteq> (?tid, ?mid, path g)" by auto
      qed
      with others have "synced_files db1 (?tid, ?mid, path f) = synced_files db (?tid, ?mid, path f)"
        by blast
      with old show ?thesis by (simp add: needsSync_def getSyncedFile_def)
    qed
    with r1 j show ?thesis by blast
  qed
  then have none2: "filesToSync_of db1 ?tid ?mid files = []"
    by (simp add: filesToSync_of_def filter_empty_conv)
  from syncMapping_nothing_to_do [OF q2 fresh2 sc2 none2]
  have second: "\<exists>job2 db2. syncMapping tenant mapping env2 db1 = (Inr (Some job2), db2)
            \<and> job_status job2 = JobCompleted \<and> errors job2 = []
            \<and> filesTotal job2 = 0 \<and> filesProcessed job2 = 0
            \<and> synced_files db2 = synced_files db1 \<and> remote_log db2 = remote_log db1"
    by blast
  from first second show ?thesis by blast
qed

theorem syncMapping_idempotent_witness:
  "\<not> needsSync (snd (syncMapping example_tenant example_mapping (quiet_env ok_transfer ''job1'') empty_world))
        (tenant_id example_tenant) (mapping_id example_mapping) (path file_a) (hash file_a)
   \<and> \<not> needsSync (snd (syncMapping example_tenant example_mapping (quiet_env ok_transfer ''job1'') empty_world))
        (tenant_id example_tenant) (mapping_id example_mapping) (path file_c) (hash file_c)
   \<and> (\<exists>job2 db2.
         syncMapping example_tenant example_mapping (quiet_env ok_transfer ''job2'')
           (snd (syncMapping example_tenant example_mapping (quiet_env ok_transfer ''job1'') empty_world))
           = (Inr (Some job2), db2)
         \<and> job_status job2 = JobCompleted \<and> filesTotal job2 = 0 \<and> filesProcessed job2 = 0
         \<and> remote_log db2 =
             remote_log (snd (syncMapping example_tenant example_mapping (quiet_env ok_transfer ''job1'') empty_world)))"
proof -
  let ?env1 = "quiet_env ok_transfer ''job1''" and ?env2 = "quiet_env ok_transfer ''job2''"
  let ?run1 = "syncMapping example_tenant example_mapping ?env1 empty_world"
  have hq1: "callback_returns ?env1" and hq2: "callback_returns ?env2"
    by (simp_all add: callback_returns_def quiet_env_def example_env_def returns_always_def)
  have h1: "distinct (map path [file_a, file_c])" by (simp add: file_a_def file_c_def)
  have h2: "sync_jobs empty_world (newJobId ?env1) = None" by (simp add: empty_world_def)
  have h3: "scan ?env1 = Inr [file_a, file_c]" by (simp add: quiet_env_def example_env_def returns_always_def)
  have h4: "filesToSync_of empty_world (tenant_id example_tenant) (mapping_id example_mapping) [file_a, file_c] \<noteq> []
              \<longrightarrow> connect ?env1 = Inr ()" by (simp add: quiet_env_def example_env_def returns_always_def)
  have h5: "\<forall>f\<in>set (filesToSync_of empty_world (tenant_id example_tenant) (mapping_id example_mapping) [file_a, file_c]).
              \<not> isl (transfer ?env1 f)" by (simp add: quiet_env_def example_env_def returns_always_def ok_transfer_def)
  have h6: "?run1 = (fst ?run1, snd ?run1)" by simp
  have h7: "scan ?env2 = Inr [file_a, file_c]" by (simp add: quiet_env_def example_env_def returns_always_def)
  have h8: "sync_jobs (snd ?run1) (newJobId ?env2) = None" by code_simp
  note t = syncMapping_idempotent [OF hq1 hq2 h1 h2 h3 h4 h5 h6 h7 h8]
  from t have a: "\<forall>f\<in>set [file_a, file_c].
      \<not> needsSync (snd ?run1) (tenant_id example_tenant) (mapping_id example_mapping) (path f) (hash f)"
    by blast
  from t have b: "\<exists>job2 db2.
         syncMapping example_tenant example_mapping ?env2 (snd ?run1) = (Inr (Some job2), db2)
         \<and> job_status job2 = JobCompleted \<and> filesTotal job2 = 0 \<and> filesProcessed job2 = 0
         \<and> remote_log db2 = remote_log (snd ?run1)"
    by blast
  from a have "\<not> needsSync (snd ?run1) (tenant_id example_tenant) (mapping_id example_mapping)
                  (path file_a) (hash file_a)"
    and "\<not> needsSync (snd ?run1) (tenant_id example_tenant) (mapping_id example_mapping)
                  (path file_c) (hash file_c)"
    by simp_all
  with b show ?thesis by (intro conjI)
qed

section \<open>Graph client: chunked upload\<close>

subsection \<open>Contiguous ranges\<close>







subsection \<open>The upload loop\<close>










text \<open>Runs of the loop and of the whole upload on the example endpoints.\<close>

lemma uploadLargeFile_loop_example:
  "uploadLargeFile_loop chunk_sink ''u'' 2 [1, 2, 3, 4, 5] (Some progress_quiet) 0 \<lparr>remote = (), sent = []\<rparr> =
     Some (Inr \<lparr>item_id = ''item'', item_name = ''u'', lastModifiedDateTime = []\<rparr>,
           \<lparr>remote = (),
            sent = [PutRange ''u'' [1, 2] 0 1 5, PutRange ''u'' [3, 4] 2 3 5, PutRange ''u'' [5] 4 4 5]\<rparr>)"
  apply (subst uploadLargeFile_loop.simps,
         simp add: uploadChunk_def chunk_sink_def js_slice_def js_index_def call_onProgress_def progress_quiet_def)
  apply (subst uploadLargeFile_loop.simps,
         simp add: uploadChunk_def chunk_sink_def js_slice_def js_index_def call_onProgress_def progress_quiet_def)
  apply (subst uploadLargeFile_loop.simps,
         simp add: uploadChunk_def chunk_sink_def js_slice_def js_index_def call_onProgress_def progress_quiet_def)
  done






end
